theory Spec2Isabelle
  imports Complex_Main "HOL-Library.AList"
begin

section \<open>The reach and frequency calculator\<close>

text \<open>
  A shallow embedding of the class \<open>ReachFrequencyCalculator\<close> of
  \<open>src/reach_frequency_calculator.py\<close>, the validated and clamped variant of the engine.

  Python's \<open>int\<close> is \<open>int\<close>. Python's \<open>float\<close> is modelled by \<open>real\<close>: the arithmetic is
  the exact one, without rounding, overflow or NaN, and \<open>np.exp\<close> is the real exponential.
  A \<open>dict\<close> keeps its insertion order and has no two equal keys: it is an association list,
  written to with \<open>AList.update\<close> (an existing key keeps its place, a new key goes last) and
  read with \<open>map_of\<close>. An exception is the left summand of a sum type.
\<close>

subsection \<open>Data\<close>

datatype error = ValueError string | ZeroDivisionError

type_synonym 'v dict = "(string \<times> 'v) list"

record calculator =
  total_universe :: int
  total_impressions :: int
  max_reach_percent :: real
  global_overlap_factor :: real
  distributed_impressions :: "int dict"
  channel_penetration :: "real dict"
  efficiency_factors :: "real dict"
  channel_reach :: "real dict"
  channel_contributions :: "real dict"
  raw_total_reach :: real
  overlapped_reach :: real
  final_reach :: real
  average_frequency :: real
  effective_reach :: "real dict"

text \<open>The dictionary that \<open>run_all_calculations\<close> returns, one field for each of its keys.\<close>

record results =
  res_channel_contributions :: "real dict"
  res_raw_reach_percent :: real
  res_overlapped_reach_percent :: real
  res_final_reach :: real
  res_final_reach_percent :: real
  res_average_frequency :: real
  res_effective_reach :: "real dict"

subsection \<open>Python primitives\<close>

text \<open>The division \<open>a / b\<close> of two numbers, of which one is a float: it raises on a zero divisor.\<close>

definition truediv :: "real \<Rightarrow> real \<Rightarrow> error + real" where
  "truediv a b = (if b = 0 then Inl ZeroDivisionError else Inr (a / b))"

text \<open>\<open>d.get(k, default)\<close>\<close>

definition dict_get :: "'v dict \<Rightarrow> string \<Rightarrow> 'v \<Rightarrow> 'v" where
  "dict_get d k dflt = (case map_of d k of None \<Rightarrow> dflt | Some v \<Rightarrow> v)"

text \<open>\<open>str(i)\<close> for an integer: its decimal digits, after a minus sign when it is negative.\<close>

definition digit_char :: "nat \<Rightarrow> char" where
  "digit_char d = ''0123456789'' ! d"

fun str_nat :: "nat \<Rightarrow> string" where
  "str_nat n = (if n < 10 then [digit_char n] else str_nat (n div 10) @ [digit_char (n mod 10)])"

declare str_nat.simps [simp del]

definition str_int :: "int \<Rightarrow> string" where
  "str_int i = (if i < 0 then CHR ''-'' # str_nat (nat (- i)) else str_nat (nat i))"

text \<open>The key \<open>f"{i}+"\<close> of a frequency threshold.\<close>

definition threshold_key :: "int \<Rightarrow> string" where
  "threshold_key i = str_int i @ ''+''"

subsection \<open>The constructor\<close>

text \<open>
  \<open>__init__\<close>: the four checks in the order of the source, then the seven inputs stored and
  the computed fields initialised. A failed check returns the error alone.
\<close>

definition ReachFrequencyCalculator ::
  "int \<Rightarrow> int \<Rightarrow> real \<Rightarrow> real \<Rightarrow> int dict \<Rightarrow> real dict \<Rightarrow> real dict \<Rightarrow> error + calculator" where
  "ReachFrequencyCalculator universe impressions max_percent overlap_factor distributed penetration
      efficiency =
    (if universe < 1000000 then Inl (ValueError ''Total universe must be at least 1,000,000'')
     else if impressions < 10000 then
       Inl (ValueError ''Total impressions must be at least 10,000'')
     else if \<not> (0 \<le> max_percent \<and> max_percent \<le> 99.8) then
       Inl (ValueError ''Maximum reach percentage must be between 0 and 99.8'')
     else if \<not> (0.35 \<le> overlap_factor \<and> overlap_factor \<le> 0.6) then
       Inl (ValueError ''Global overlap factor must be between 0.35 and 0.6'')
     else Inr \<lparr>total_universe = universe, total_impressions = impressions,
       max_reach_percent = max_percent, global_overlap_factor = overlap_factor,
       distributed_impressions = distributed, channel_penetration = penetration,
       efficiency_factors = efficiency, channel_reach = [], channel_contributions = [],
       raw_total_reach = 0, overlapped_reach = 0, final_reach = 0, average_frequency = 0,
       effective_reach = []\<rparr>)"

subsection \<open>The channel reach stage\<close>

text \<open>
  The first loop of \<open>calculate_channel_reach\<close>, over the items of \<open>distributed_impressions\<close>.
  It carries \<open>self.channel_reach\<close> and the local \<open>total_channel_reach\<close>. The quotient
  \<open>-impressions / max_possible_reach\<close> raises when \<open>max_possible_reach\<close> is zero.
\<close>

fun channel_reach_loop ::
  "int \<Rightarrow> real dict \<Rightarrow> (string \<times> int) list \<Rightarrow> real dict \<times> real \<Rightarrow> error + (real dict \<times> real)" where
  "channel_reach_loop universe penetrations [] (reaches, total_channel_reach) =
     Inr (reaches, total_channel_reach)"
| "channel_reach_loop universe penetrations ((channel, impressions) # rest)
       (reaches, total_channel_reach) =
     (case map_of penetrations channel of
        None \<Rightarrow> channel_reach_loop universe penetrations rest (reaches, total_channel_reach)
      | Some penetration \<Rightarrow>
          (let max_possible_reach = penetration * real_of_int universe in
           if impressions > 0 then
             (case truediv (- real_of_int impressions) max_possible_reach of
                Inl e \<Rightarrow> Inl e
              | Inr q \<Rightarrow>
                  (let reach = max_possible_reach * (1 - exp q);
                       reach = min reach max_possible_reach;
                       stored = max 0 reach
                   in channel_reach_loop universe penetrations rest
                        (AList.update channel stored reaches, total_channel_reach + stored)))
           else channel_reach_loop universe penetrations rest
                  (AList.update channel 0 reaches, total_channel_reach)))"

text \<open>
  The second part of \<open>calculate_channel_reach\<close>: one of the two loops that fill
  \<open>self.channel_contributions\<close> from \<open>self.channel_reach\<close>.
\<close>

definition contributions_loop :: "real \<Rightarrow> real dict \<Rightarrow> real dict \<Rightarrow> real dict" where
  "contributions_loop total_channel_reach reaches contributions =
     (if total_channel_reach > 0 then
        fold (\<lambda>(channel, reach). AList.update channel ((reach / total_channel_reach) * 100))
          reaches contributions
      else fold (\<lambda>channel. AList.update channel 0) (map fst reaches) contributions)"

text \<open>
  \<open>calculate_channel_reach\<close>. The method returns the pair of \<open>self.channel_reach\<close> and
  \<open>self.channel_contributions\<close>; both are fields of the calculator returned here.
\<close>

definition calculate_channel_reach :: "calculator \<Rightarrow> error + calculator" where
  "calculate_channel_reach self =
     (case channel_reach_loop (total_universe self) (channel_penetration self)
             (distributed_impressions self) (channel_reach self, 0) of
        Inl e \<Rightarrow> Inl e
      | Inr (reaches, total_channel_reach) \<Rightarrow>
          Inr (self\<lparr>channel_reach := reaches,
                    channel_contributions :=
                      contributions_loop total_channel_reach reaches (channel_contributions self)\<rparr>))"

subsection \<open>The total reach stage\<close>

definition calculate_total_reach :: "calculator \<Rightarrow> calculator" where
  "calculate_total_reach self =
     (if channel_reach self = [] then self\<lparr>raw_total_reach := 0, final_reach := 0\<rparr>
      else
        (let raw = sum_list (map snd (channel_reach self));
             overlap_reach = raw * (1 - global_overlap_factor self);
             total_weight = sum_list (map snd (channel_reach self));
             weighted_efficiency =
               (if total_weight > 0 then
                  sum_list (map (\<lambda>(channel, reach).
                      dict_get (efficiency_factors self) channel 0.5 * reach) (channel_reach self))
                    / total_weight
                else 0.5);
             reach_after_efficiency = overlap_reach * weighted_efficiency;
             max_possible_reach = (max_reach_percent self / 100) * real_of_int (total_universe self)
         in self\<lparr>raw_total_reach := raw,
                 final_reach := min (max 0 reach_after_efficiency) max_possible_reach\<rparr>))"

subsection \<open>The frequency stage\<close>

definition calculate_frequency :: "calculator \<Rightarrow> calculator" where
  "calculate_frequency self =
     (if final_reach self \<le> 0 then self\<lparr>average_frequency := 0\<rparr>
      else
        (let raw_frequency = real_of_int (total_impressions self) / final_reach self;
             min_frequency = 1;
             max_frequency = 20
         in self\<lparr>average_frequency := min (max min_frequency raw_frequency) max_frequency\<rparr>))"

subsection \<open>The effective reach stage\<close>

text \<open>
  The loop of \<open>calculate_effective_reach\<close> over \<open>range(2, max_frequency + 1)\<close>. It carries
  \<open>self.effective_reach\<close> and the local \<open>current_reach\<close>.
\<close>

fun effective_reach_loop :: "real \<Rightarrow> real \<Rightarrow> int list \<Rightarrow> real dict \<times> real \<Rightarrow> real dict \<times> real" where
  "effective_reach_loop x max_percent [] (effective, current_reach) = (effective, current_reach)"
| "effective_reach_loop x max_percent (i # rest) (effective, current_reach) =
     (let previous_reach = current_reach;
          current_reach = previous_reach * (1 - x)
      in effective_reach_loop x max_percent rest
           (AList.update (threshold_key i) (min (max 0 current_reach) max_percent) effective,
            current_reach))"

text \<open>
  \<open>calculate_effective_reach\<close>: the dictionary it returns, and the calculator after it. In the
  first branch the source returns a new dictionary of zeros and assigns nothing to
  \<open>self.effective_reach\<close>. The divisor \<open>self.total_universe\<close> is an integer field.
\<close>

definition calculate_effective_reach :: "calculator \<Rightarrow> int \<Rightarrow> error + (real dict \<times> calculator)" where
  "calculate_effective_reach self max_frequency =
     (if final_reach self \<le> 0 \<or> average_frequency self \<le> 0 then
        Inr (fold (\<lambda>i. AList.update (threshold_key i) 0) [2..max_frequency] [], self)
      else
        (case truediv (final_reach self) (real_of_int (total_universe self)) of
           Inl e \<Rightarrow> Inl e
         | Inr q \<Rightarrow>
             (let reach_percent = q * 100;
                  x = 1 / max 1 (average_frequency self);
                  (effective, current_reach) =
                    effective_reach_loop x (max_reach_percent self) [2..max_frequency]
                      ([], reach_percent)
              in Inr (effective, self\<lparr>effective_reach := effective\<rparr>))))"

subsection \<open>The whole calculation\<close>

text \<open>
  \<open>run_all_calculations\<close>: the four stages in order, then the dictionary of results, read from
  the fields of the calculator. It returns the results and the calculator after the run.
\<close>

definition run_all_calculations :: "calculator \<Rightarrow> error + (results \<times> calculator)" where
  "run_all_calculations self =
     (case calculate_channel_reach self of
        Inl e \<Rightarrow> Inl e
      | Inr self1 \<Rightarrow>
          (let self2 = calculate_total_reach self1;
               self3 = calculate_frequency self2
           in case calculate_effective_reach self3 6 of
                Inl e \<Rightarrow> Inl e
              | Inr (returned, self4) \<Rightarrow>
                  (case truediv (raw_total_reach self4) (real_of_int (total_universe self4)) of
                     Inl e \<Rightarrow> Inl e
                   | Inr raw_q \<Rightarrow>
                  (case truediv (overlapped_reach self4) (real_of_int (total_universe self4)) of
                     Inl e \<Rightarrow> Inl e
                   | Inr overlapped_q \<Rightarrow>
                  (case truediv (final_reach self4) (real_of_int (total_universe self4)) of
                     Inl e \<Rightarrow> Inl e
                   | Inr final_q \<Rightarrow>
                       Inr (\<lparr>res_channel_contributions = channel_contributions self4,
                             res_raw_reach_percent = raw_q * 100,
                             res_overlapped_reach_percent = overlapped_q * 100,
                             res_final_reach = final_reach self4,
                             res_final_reach_percent = final_q * 100,
                             res_average_frequency = average_frequency self4,
                             res_effective_reach = effective_reach self4\<rparr>, self4))))))"

text \<open>
  The use of the class by its callers (\<open>create_gui\<close> of \<open>streamlit-gui.py\<close> and the demo of
  \<open>reach-frequency-calculator.py\<close>): construct a calculator from the plan, run it once, and
  keep the dictionary of results.
\<close>

definition calculate_plan ::
  "int \<Rightarrow> int \<Rightarrow> real \<Rightarrow> real \<Rightarrow> int dict \<Rightarrow> real dict \<Rightarrow> real dict \<Rightarrow> error + results" where
  "calculate_plan universe impressions max_percent overlap_factor distributed penetration
      efficiency =
     (case ReachFrequencyCalculator universe impressions max_percent overlap_factor distributed
             penetration efficiency of
        Inl e \<Rightarrow> Inl e
      | Inr calculator \<Rightarrow>
          (case run_all_calculations calculator of
             Inl e \<Rightarrow> Inl e
           | Inr (res, after) \<Rightarrow> Inr res))"

subsection \<open>Valid plan inputs\<close>

text \<open>
  The bounds of the data model on the three input dictionaries: impressions are not
  negative, penetrations and efficiency factors lie between 0 and 1. The keys of a dictionary
  are distinct.
\<close>

definition dict_wf :: "'v dict \<Rightarrow> bool" where
  "dict_wf d = distinct (map fst d)"

definition valid_dicts :: "int dict \<Rightarrow> real dict \<Rightarrow> real dict \<Rightarrow> bool" where
  "valid_dicts distributed penetration efficiency =
     (dict_wf distributed \<and> dict_wf penetration \<and> dict_wf efficiency \<and>
      list_all (\<lambda>(channel, n). 0 \<le> n) distributed \<and>
      list_all (\<lambda>(channel, p). 0 \<le> p \<and> p \<le> 1) penetration \<and>
      list_all (\<lambda>(channel, e). 0 \<le> e \<and> e \<le> 1) efficiency)"

section \<open>The input validator\<close>

lemma constructor_Inr_iff:
  "(\<exists>self. ReachFrequencyCalculator U I m g di cp ef = Inr self) \<longleftrightarrow>
     1000000 \<le> U \<and> 10000 \<le> I \<and> 0 \<le> m \<and> m \<le> 99.8 \<and> 0.35 \<le> g \<and> g \<le> 0.6"
  by (auto simp: ReachFrequencyCalculator_def)

lemma constructor_Inl_iff:
  "(\<exists>msg. ReachFrequencyCalculator U I m g di cp ef = Inl (ValueError msg) \<and> msg \<noteq> []) \<longleftrightarrow>
     U < 1000000 \<or> I < 10000 \<or> m < 0 \<or> 99.8 < m \<or> g < 0.35 \<or> 0.6 < g"
  by (auto simp: ReachFrequencyCalculator_def)

lemma constructor_fields:
  assumes "ReachFrequencyCalculator U I m g di cp ef = Inr self"
  shows "self = \<lparr>total_universe = U, total_impressions = I, max_reach_percent = m,
       global_overlap_factor = g, distributed_impressions = di, channel_penetration = cp,
       efficiency_factors = ef, channel_reach = [], channel_contributions = [],
       raw_total_reach = 0, overlapped_reach = 0, final_reach = 0, average_frequency = 0,
       effective_reach = []\<rparr>"
    and "1000000 \<le> U" and "10000 \<le> I" and "0 \<le> m" and "m \<le> 99.8"
    and "0.35 \<le> g" and "g \<le> 0.6"
  using assms by (auto simp: ReachFrequencyCalculator_def split: if_splits)

text \<open>
  Claim C4. The constructor fails with a \<open>ValueError\<close> that carries a message exactly when the
  universe is below 1,000,000, or the impressions are below 10,000, or the maximum reach
  percentage is outside [0, 99.8], or the overlap factor is outside [0.35, 0.6]; otherwise it
  returns a calculator. A universe of 1,000,000 and an overlap factor of 0.6 are accepted when
  the other inputs are in range; a universe of 999,999 and an overlap factor of 0.61 are
  refused whatever the other inputs are. On failure the result is the error alone: no
  calculator, and so no state on which a stage could run.
\<close>

theorem constructor_validation:
  "((\<exists>msg. ReachFrequencyCalculator U I m g di cp ef = Inl (ValueError msg) \<and> msg \<noteq> []) \<longleftrightarrow>
      U < 1000000 \<or> I < 10000 \<or> m < 0 \<or> 99.8 < m \<or> g < 0.35 \<or> 0.6 < g) \<and>
   ((\<exists>self. ReachFrequencyCalculator U I m g di cp ef = Inr self) \<longleftrightarrow>
      \<not> (U < 1000000 \<or> I < 10000 \<or> m < 0 \<or> 99.8 < m \<or> g < 0.35 \<or> 0.6 < g)) \<and>
   (10000 \<le> I \<and> 0 \<le> m \<and> m \<le> 99.8 \<and> 0.35 \<le> g \<and> g \<le> 0.6 \<longrightarrow>
      (\<exists>self. ReachFrequencyCalculator 1000000 I m g di cp ef = Inr self)) \<and>
   (1000000 \<le> U \<and> 10000 \<le> I \<and> 0 \<le> m \<and> m \<le> 99.8 \<longrightarrow>
      (\<exists>self. ReachFrequencyCalculator U I m 0.6 di cp ef = Inr self)) \<and>
   (\<exists>msg. ReachFrequencyCalculator 999999 I m g di cp ef = Inl (ValueError msg) \<and> msg \<noteq> []) \<and>
   (\<exists>msg. ReachFrequencyCalculator U I m 0.61 di cp ef = Inl (ValueError msg) \<and> msg \<noteq> [])"
proof -
  have a: "(\<exists>self. ReachFrequencyCalculator U I m g di cp ef = Inr self) \<longleftrightarrow>
      \<not> (U < 1000000 \<or> I < 10000 \<or> m < 0 \<or> 99.8 < m \<or> g < 0.35 \<or> 0.6 < g)"
    unfolding constructor_Inr_iff by auto
  have b: "10000 \<le> I \<and> 0 \<le> m \<and> m \<le> 99.8 \<and> 0.35 \<le> g \<and> g \<le> 0.6 \<longrightarrow>
      (\<exists>self. ReachFrequencyCalculator 1000000 I m g di cp ef = Inr self)"
    unfolding constructor_Inr_iff by simp
  have c: "1000000 \<le> U \<and> 10000 \<le> I \<and> 0 \<le> m \<and> m \<le> 99.8 \<longrightarrow>
      (\<exists>self. ReachFrequencyCalculator U I m 0.6 di cp ef = Inr self)"
    unfolding constructor_Inr_iff by simp
  have d: "\<exists>msg. ReachFrequencyCalculator 999999 I m g di cp ef = Inl (ValueError msg) \<and> msg \<noteq> []"
    unfolding constructor_Inl_iff by simp
  have e: "\<exists>msg. ReachFrequencyCalculator U I m 0.61 di cp ef = Inl (ValueError msg) \<and> msg \<noteq> []"
    unfolding constructor_Inl_iff by simp
  from constructor_Inl_iff [of U I m g di cp ef] a b c d e show ?thesis by blast
qed

theorem constructor_validation_witness:
  "(\<exists>self. ReachFrequencyCalculator 1000000 10000 90 0.6 [(''A'', 5)] [(''A'', 0.8)] [(''A'', 0.7)]
      = Inr self) \<and>
   \<not> (\<exists>msg. ReachFrequencyCalculator 1000000 10000 90 0.6 [(''A'', 5)] [(''A'', 0.8)] [(''A'', 0.7)]
      = Inl (ValueError msg) \<and> msg \<noteq> [])"
  using constructor_validation [of 1000000 10000 90 "0.6" "[(''A'', 5)]" "[(''A'', 0.8)]"
      "[(''A'', 0.7)]"]
  by simp

section \<open>Lemmas on the channel reach stage\<close>

lemma update_fresh: "k \<notin> fst ` set al \<Longrightarrow> AList.update k v al = al @ [(k, v)]"
  by (induction al) auto

lemma update_values:
  "p \<in> set (AList.update k v al) \<Longrightarrow> p = (k, v) \<or> p \<in> set al"
  by (induction al) (auto split: if_splits)

lemma channel_reach_loop_nonneg:
  "channel_reach_loop U cp items (rs, t) = Inr (rs', t') \<Longrightarrow> \<forall>p\<in>set rs. 0 \<le> snd p \<Longrightarrow>
     \<forall>p\<in>set rs'. 0 \<le> snd p"
proof (induction items arbitrary: rs t)
  case Nil
  then show ?case by simp
next
  case (Cons a items)
  obtain channel impressions where a: "a = (channel, impressions)" by (cases a)
  show ?case
  proof (cases "map_of cp channel")
    case None
    with Cons a show ?thesis by simp
  next
    case (Some pen)
    show ?thesis
    proof (cases "impressions > 0")
      case True
      with Cons.prems(1) a Some obtain q where
        q: "truediv (- real_of_int impressions) (pen * real_of_int U) = Inr q"
        by (auto simp: Let_def split: sum.splits)
      let ?stored = "max 0 (min (pen * real_of_int U * (1 - exp q)) (pen * real_of_int U))"
      from Cons.prems(1) a Some True q have
        "channel_reach_loop U cp items (AList.update channel ?stored rs, t + ?stored) = Inr (rs', t')"
        by (simp add: Let_def)
      moreover have "\<forall>p\<in>set (AList.update channel ?stored rs). 0 \<le> snd p"
        using Cons.prems(2) by (auto dest!: update_values)
      ultimately show ?thesis by (rule Cons.IH)
    next
      case False
      with Cons.prems(1) a Some have
        "channel_reach_loop U cp items (AList.update channel 0 rs, t) = Inr (rs', t')"
        by (simp add: Let_def)
      moreover have "\<forall>p\<in>set (AList.update channel 0 rs). 0 \<le> snd p"
        using Cons.prems(2) by (auto dest!: update_values)
      ultimately show ?thesis by (rule Cons.IH)
    qed
  qed
qed

lemma channel_reach_loop_distinct:
  "channel_reach_loop U cp items (rs, t) = Inr (rs', t') \<Longrightarrow> distinct (map fst rs) \<Longrightarrow>
     distinct (map fst rs')"
proof (induction items arbitrary: rs t)
  case Nil
  then show ?case by simp
next
  case (Cons a items)
  obtain channel impressions where a: "a = (channel, impressions)" by (cases a)
  show ?case
  proof (cases "map_of cp channel")
    case None
    with Cons a show ?thesis by simp
  next
    case (Some pen)
    show ?thesis
    proof (cases "impressions > 0")
      case True
      with Cons.prems(1) a Some obtain q where
        q: "truediv (- real_of_int impressions) (pen * real_of_int U) = Inr q"
        by (auto simp: Let_def split: sum.splits)
      let ?stored = "max 0 (min (pen * real_of_int U * (1 - exp q)) (pen * real_of_int U))"
      from Cons.prems(1) a Some True q have
        "channel_reach_loop U cp items (AList.update channel ?stored rs, t + ?stored) = Inr (rs', t')"
        by (simp add: Let_def)
      moreover have "distinct (map fst (AList.update channel ?stored rs))"
        using Cons.prems(2) by (rule distinct_update)
      ultimately show ?thesis by (rule Cons.IH)
    next
      case False
      with Cons.prems(1) a Some have
        "channel_reach_loop U cp items (AList.update channel 0 rs, t) = Inr (rs', t')"
        by (simp add: Let_def)
      moreover have "distinct (map fst (AList.update channel 0 rs))"
        using Cons.prems(2) by (rule distinct_update)
      ultimately show ?thesis by (rule Cons.IH)
    qed
  qed
qed

lemma channel_reach_loop_total:
  "channel_reach_loop U cp items (rs, t) = Inr (rs', t') \<Longrightarrow> distinct (map fst items) \<Longrightarrow>
     fst ` set items \<inter> fst ` set rs = {} \<Longrightarrow>
     sum_list (map snd rs') - sum_list (map snd rs) = t' - t"
proof (induction items arbitrary: rs t)
  case Nil
  then show ?case by simp
next
  case (Cons a items)
  obtain channel impressions where a: "a = (channel, impressions)" by (cases a)
  from Cons.prems(2,3) a have fresh: "channel \<notin> fst ` set rs" and d: "distinct (map fst items)"
    and rest: "fst ` set items \<inter> fst ` set rs = {}" and new: "channel \<notin> fst ` set items"
    by auto
  show ?case
  proof (cases "map_of cp channel")
    case None
    with Cons.prems(1) a have "channel_reach_loop U cp items (rs, t) = Inr (rs', t')" by simp
    from Cons.IH [OF this d rest] show ?thesis .
  next
    case (Some pen)
    show ?thesis
    proof (cases "impressions > 0")
      case True
      with Cons.prems(1) a Some obtain q where
        q: "truediv (- real_of_int impressions) (pen * real_of_int U) = Inr q"
        by (auto simp: Let_def split: sum.splits)
      let ?stored = "max 0 (min (pen * real_of_int U * (1 - exp q)) (pen * real_of_int U))"
      from Cons.prems(1) a Some True q have
        "channel_reach_loop U cp items (AList.update channel ?stored rs, t + ?stored) = Inr (rs', t')"
        by (simp add: Let_def)
      then have run: "channel_reach_loop U cp items (rs @ [(channel, ?stored)], t + ?stored) = Inr (rs', t')"
        using fresh by (simp add: update_fresh)
      have "fst ` set items \<inter> fst ` set (rs @ [(channel, ?stored)]) = {}"
        using rest new by auto
      from Cons.IH [OF run d this] show ?thesis by simp
    next
      case False
      with Cons.prems(1) a Some have
        "channel_reach_loop U cp items (AList.update channel 0 rs, t) = Inr (rs', t')"
        by (simp add: Let_def)
      then have run: "channel_reach_loop U cp items (rs @ [(channel, 0)], t) = Inr (rs', t')"
        using fresh by (simp add: update_fresh)
      have "fst ` set items \<inter> fst ` set (rs @ [(channel, 0)]) = {}"
        using rest new by auto
      from Cons.IH [OF run d this] show ?thesis by simp
    qed
  qed
qed

lemma fold_update_fresh:
  "distinct (map fst xs) \<Longrightarrow> fst ` set xs \<inter> fst ` set acc = {} \<Longrightarrow>
     fold (\<lambda>(k, v). AList.update k (f v)) xs acc = acc @ map (\<lambda>(k, v). (k, f v)) xs"
proof (induction xs arbitrary: acc)
  case Nil
  then show ?case by simp
next
  case (Cons a xs)
  obtain k v where a: "a = (k, v)" by (cases a)
  from Cons.prems a have "k \<notin> fst ` set acc" by auto
  then have u: "AList.update k (f v) acc = acc @ [(k, f v)]" by (rule update_fresh)
  have "fold (\<lambda>(k, v). AList.update k (f v)) xs (acc @ [(k, f v)])
      = (acc @ [(k, f v)]) @ map (\<lambda>(k, v). (k, f v)) xs"
    using Cons.prems a by (intro Cons.IH) auto
  with u a show ?case by simp
qed

lemma fold_update_keys:
  "fold (\<lambda>k. AList.update k c) (map fst xs) acc = fold (\<lambda>(k, v). AList.update k c) xs acc"
  by (induction xs arbitrary: acc) auto

lemma contributions_loop_fresh:
  assumes "distinct (map fst rs)"
  shows "contributions_loop t rs [] =
    map (\<lambda>(k, v). (k, if t > 0 then (v / t) * 100 else 0)) rs"
  using fold_update_fresh [OF assms, of "[]" "\<lambda>v. (v / t) * 100"]
    fold_update_fresh [OF assms, of "[]" "\<lambda>v. 0::real"]
  by (simp add: contributions_loop_def fold_update_keys)

section \<open>The contributions of the channels\<close>

lemma calculate_channel_reach_cases:
  "calculate_channel_reach self =
     (case channel_reach_loop (total_universe self) (channel_penetration self)
             (distributed_impressions self) (channel_reach self, 0) of
        Inl e \<Rightarrow> Inl e
      | Inr (rs, t) \<Rightarrow> Inr (self\<lparr>channel_reach := rs,
            channel_contributions := contributions_loop t rs (channel_contributions self)\<rparr>))"
  by (simp add: calculate_channel_reach_def)

lemma sum_list_scaled:
  "sum_list (map snd (map (\<lambda>(k, v). (k, v / t * (100::real))) rs)) = sum_list (map snd rs) / t * 100"
  by (induction rs) (auto simp: add_divide_distrib distrib_right)

lemma sum_list_all_zero: "\<forall>p\<in>set xs. snd p = (0::real) \<Longrightarrow> sum_list (map snd xs) = 0"
  by (induction xs) auto

text \<open>
  Claim C9. On a newly constructed calculator whose \<open>distributed_impressions\<close> is a
  dictionary, once the first loop of the channel reach stage has ended with the dictionary
  \<open>reaches\<close> and the total \<open>total_channel_reach\<close>, the stage returns without raising: the
  contributions have the keys of \<open>reaches\<close>, the total is the sum of the computed channel
  reaches and is not negative, the contributions sum to 100 when the total is positive, and
  when the total is 0 every contribution is 0 and they sum to 0.
\<close>

theorem channel_contributions_sum:
  assumes "ReachFrequencyCalculator U I m g di cp ef = Inr self"
    and "dict_wf di"
    and "channel_reach_loop U cp di ([], 0) = Inr (reaches, total_channel_reach)"
  shows "\<exists>self'. calculate_channel_reach self = Inr self' \<and> channel_reach self' = reaches \<and>
     map fst (channel_contributions self') = map fst reaches \<and>
     total_channel_reach = sum_list (map snd reaches) \<and> 0 \<le> total_channel_reach \<and>
     (total_channel_reach > 0 \<longrightarrow> sum_list (map snd (channel_contributions self')) = 100) \<and>
     (total_channel_reach = 0 \<longrightarrow> sum_list (map snd (channel_contributions self')) = 0 \<and>
        (\<forall>p\<in>set (channel_contributions self'). snd p = 0))"
proof -
  note f = constructor_fields(1) [OF assms(1)]
  let ?cc = "map (\<lambda>(k, v). (k, if total_channel_reach > 0 then (v / total_channel_reach) * 100 else 0))
     reaches"
  let ?self' = "self\<lparr>channel_reach := reaches, channel_contributions := ?cc\<rparr>"
  have d: "distinct (map fst reaches)"
    using channel_reach_loop_distinct [OF assms(3)] by simp
  have total: "total_channel_reach = sum_list (map snd reaches)"
    using channel_reach_loop_total [OF assms(3)] assms(2) by (simp add: dict_wf_def)
  have nonneg: "\<forall>p\<in>set reaches. 0 \<le> snd p"
    using channel_reach_loop_nonneg [OF assms(3)] by simp
  then have "0 \<le> sum_list (map snd reaches)"
    by (intro sum_list_nonneg) auto
  with total have t0: "0 \<le> total_channel_reach" by simp
  have run: "calculate_channel_reach self = Inr ?self'"
    using assms(3) contributions_loop_fresh [OF d, of total_channel_reach]
    by (simp add: calculate_channel_reach_cases f)
  have keys: "map fst ?cc = map fst reaches"
    by (induction reaches) auto
  have pos: "sum_list (map snd ?cc) = 100" if "total_channel_reach > 0"
    using that total sum_list_scaled [of total_channel_reach reaches] by simp
  have zero: "\<forall>p\<in>set ?cc. snd p = 0" if "total_channel_reach = 0"
    using that by auto
  have zsum: "sum_list (map snd ?cc) = 0" if "total_channel_reach = 0"
    using zero [OF that] by (rule sum_list_all_zero)
  from run keys total t0 pos zero zsum show ?thesis
    by (intro exI [of _ ?self']) simp
qed

lemma two_channel_loop:
  "channel_reach_loop 1000000 [(''A'', 1), (''B'', 0.5)] [(''A'', 1000000), (''B'', 0)] ([], 0)
    = Inr ([(''A'', 1000000 * (1 - exp (- 1))), (''B'', 0)], 1000000 * (1 - exp (- 1)))"
  by (simp add: truediv_def Let_def)

theorem channel_contributions_sum_witness:
  "ReachFrequencyCalculator 1000000 10000 90 0.5 [(''A'', 1000000), (''B'', 0)]
      [(''A'', 1), (''B'', 0.5)] [(''A'', 0.7)] =
     Inr \<lparr>total_universe = 1000000, total_impressions = 10000, max_reach_percent = 90,
       global_overlap_factor = 0.5, distributed_impressions = [(''A'', 1000000), (''B'', 0)],
       channel_penetration = [(''A'', 1), (''B'', 0.5)], efficiency_factors = [(''A'', 0.7)],
       channel_reach = [], channel_contributions = [], raw_total_reach = 0,
       overlapped_reach = 0, final_reach = 0, average_frequency = 0, effective_reach = []\<rparr> \<and>
   dict_wf [(''A'', 1000000 :: int), (''B'', 0)] \<and>
   channel_reach_loop 1000000 [(''A'', 1), (''B'', 0.5)] [(''A'', 1000000), (''B'', 0)] ([], 0) =
     Inr ([(''A'', 1000000 * (1 - exp (- 1))), (''B'', 0)], 1000000 * (1 - exp (- 1))) \<and>
   0 < 1000000 * (1 - exp (- 1 :: real)) \<and>
   (\<exists>self'. calculate_channel_reach
       \<lparr>total_universe = 1000000, total_impressions = 10000, max_reach_percent = 90,
        global_overlap_factor = 0.5, distributed_impressions = [(''A'', 1000000), (''B'', 0)],
        channel_penetration = [(''A'', 1), (''B'', 0.5)], efficiency_factors = [(''A'', 0.7)],
        channel_reach = [], channel_contributions = [], raw_total_reach = 0,
        overlapped_reach = 0, final_reach = 0, average_frequency = 0, effective_reach = []\<rparr> =
       Inr self' \<and>
     map fst (channel_contributions self') = [''A'', ''B''] \<and>
     sum_list (map snd (channel_contributions self')) = 100)"
proof -
  let ?self = "\<lparr>total_universe = 1000000, total_impressions = 10000, max_reach_percent = 90,
       global_overlap_factor = 0.5, distributed_impressions = [(''A'', 1000000), (''B'', 0)],
       channel_penetration = [(''A'', 1), (''B'', 0.5)], efficiency_factors = [(''A'', 0.7)],
       channel_reach = [], channel_contributions = [], raw_total_reach = 0,
       overlapped_reach = 0, final_reach = 0, average_frequency = 0, effective_reach = []\<rparr>"
  have h1: "ReachFrequencyCalculator 1000000 10000 90 0.5 [(''A'', 1000000), (''B'', 0)]
      [(''A'', 1), (''B'', 0.5)] [(''A'', 0.7)] = Inr ?self"
    by (simp add: ReachFrequencyCalculator_def)
  have h2: "dict_wf [(''A'', 1000000 :: int), (''B'', 0)]"
    by (simp add: dict_wf_def)
  have h3: "channel_reach_loop 1000000 [(''A'', 1), (''B'', 0.5)] [(''A'', 1000000), (''B'', 0)]
      ([], 0) = Inr ([(''A'', 1000000 * (1 - exp (- 1))), (''B'', 0)], 1000000 * (1 - exp (- 1)))"
    by (rule two_channel_loop)
  have h4: "0 < 1000000 * (1 - exp (- 1 :: real))" by simp
  from channel_contributions_sum [OF h1 h2 h3] h4 obtain self' where
    s1: "calculate_channel_reach ?self = Inr self'" and
    s2: "map fst (channel_contributions self') = [''A'', ''B'']" and
    s3: "sum_list (map snd (channel_contributions self')) = 100"
    by auto
  have e: "\<exists>self'. calculate_channel_reach ?self = Inr self' \<and>
     map fst (channel_contributions self') = [''A'', ''B''] \<and>
     sum_list (map snd (channel_contributions self')) = 100"
  proof (intro exI conjI)
    show "calculate_channel_reach ?self = Inr self'" by (rule s1)
    show "map fst (channel_contributions self') = [''A'', ''B'']" by (rule s2)
    show "sum_list (map snd (channel_contributions self')) = 100" by (rule s3)
  qed
  show ?thesis by (intro conjI h1 h2 h3 h4 e)
qed

section \<open>The total reach stage\<close>

lemma dict_get_bounds:
  assumes "list_all (\<lambda>(channel, e). 0 \<le> e \<and> e \<le> (1::real)) ef"
  shows "0 \<le> dict_get ef c 0.5 \<and> dict_get ef c 0.5 \<le> 1"
proof (cases "map_of ef c")
  case None
  then show ?thesis by (simp add: dict_get_def)
next
  case (Some e)
  then have "(c, e) \<in> set ef" by (rule map_of_SomeD)
  with assms have "0 \<le> e \<and> e \<le> 1" by (auto simp: list_all_iff)
  with Some show ?thesis by (simp add: dict_get_def)
qed

lemma weighted_sum_bounds:
  fixes w :: "string \<Rightarrow> real"
  assumes "\<forall>p\<in>set rs. 0 \<le> snd p" and "\<And>c. 0 \<le> w c \<and> w c \<le> 1"
  shows "0 \<le> sum_list (map (\<lambda>(channel, reach). w channel * reach) rs) \<and>
    sum_list (map (\<lambda>(channel, reach). w channel * reach) rs) \<le> sum_list (map snd rs)"
  using assms(1)
proof (induction rs)
  case Nil
  then show ?case by simp
next
  case (Cons a rs)
  obtain c r where a: "a = (c, r)" by (cases a)
  with Cons.prems have r: "0 \<le> r" by simp
  from assms(2) [of c] r have "0 \<le> w c * r" "w c * r \<le> r"
    by (simp_all add: mult_left_le_one_le)
  with Cons a show ?case by simp
qed

lemma calculate_total_reach_raw:
  "raw_total_reach (calculate_total_reach self) = sum_list (map snd (channel_reach self))"
  by (cases "channel_reach self = []") (simp_all add: calculate_total_reach_def Let_def)

lemma calculate_total_reach_final_le:
  assumes nonneg: "\<forall>p\<in>set (channel_reach self). 0 \<le> snd p"
    and eff: "list_all (\<lambda>(channel, e). 0 \<le> e \<and> e \<le> 1) (efficiency_factors self)"
    and g: "global_overlap_factor self \<le> 1"
  shows "final_reach (calculate_total_reach self) \<le>
    raw_total_reach (calculate_total_reach self) * (1 - global_overlap_factor self)"
proof (cases "channel_reach self = []")
  case True
  then show ?thesis by (simp add: calculate_total_reach_def)
next
  case False
  let ?rs = "channel_reach self"
  let ?raw = "sum_list (map snd ?rs)"
  let ?ws = "sum_list (map (\<lambda>(channel, reach).
      dict_get (efficiency_factors self) channel 0.5 * reach) ?rs)"
  let ?we = "if ?raw > 0 then ?ws / ?raw else 0.5"
  let ?ov = "?raw * (1 - global_overlap_factor self)"
  have raw0: "0 \<le> ?raw" using nonneg by (intro sum_list_nonneg) auto
  have ws: "0 \<le> ?ws \<and> ?ws \<le> ?raw"
    using nonneg dict_get_bounds [OF eff] by (intro weighted_sum_bounds) auto
  have we: "0 \<le> ?we \<and> ?we \<le> 1" using ws by (auto simp: divide_le_eq)
  have ov0: "0 \<le> ?ov" using raw0 g by simp
  have "?ov * ?we \<le> ?ov" using we ov0 by (intro mult_left_le) auto
  then have "min (max 0 (?ov * ?we)) (max_reach_percent self / 100 * real_of_int (total_universe self)) \<le> ?ov"
    using ov0 by auto
  with False show ?thesis by (simp add: calculate_total_reach_def Let_def)
qed

lemma calculate_channel_reach_InrD:
  assumes "calculate_channel_reach self = Inr self'"
  shows "\<exists>rs t. channel_reach_loop (total_universe self) (channel_penetration self)
             (distributed_impressions self) (channel_reach self, 0) = Inr (rs, t) \<and>
    self' = self\<lparr>channel_reach := rs,
      channel_contributions := contributions_loop t rs (channel_contributions self)\<rparr>"
  using assms by (auto simp: calculate_channel_reach_def split: sum.splits)

lemma calculate_channel_reach_nonneg:
  assumes "calculate_channel_reach self = Inr self'" and "channel_reach self = []"
  shows "\<forall>p\<in>set (channel_reach self'). 0 \<le> snd p"
proof -
  from calculate_channel_reach_InrD [OF assms(1)] assms(2) obtain rs t where
    l: "channel_reach_loop (total_universe self) (channel_penetration self)
             (distributed_impressions self) ([], 0) = Inr (rs, t)" and
    s: "channel_reach self' = rs"
    by auto
  from channel_reach_loop_nonneg [OF l] s show ?thesis by simp
qed

text \<open>
  Claim C10. For a valid plan, after the channel reach stage the total reach stage yields a
  final reach of at most (1 - overlap factor) times the raw total reach, hence of at most
  0.65 times the raw total reach, and of at most the raw total reach.
\<close>

theorem final_reach_le_discounted_raw:
  assumes "ReachFrequencyCalculator U I m g di cp ef = Inr self"
    and "valid_dicts di cp ef"
    and "calculate_channel_reach self = Inr self1"
  shows "final_reach (calculate_total_reach self1) \<le>
      (1 - g) * raw_total_reach (calculate_total_reach self1) \<and>
    final_reach (calculate_total_reach self1) \<le>
      0.65 * raw_total_reach (calculate_total_reach self1) \<and>
    final_reach (calculate_total_reach self1) \<le> raw_total_reach (calculate_total_reach self1)"
proof -
  note f = constructor_fields [OF assms(1)]
  from calculate_channel_reach_InrD [OF assms(3)] have
    same: "efficiency_factors self1 = ef" "global_overlap_factor self1 = g"
    by (auto simp: f(1))
  have nonneg: "\<forall>p\<in>set (channel_reach self1). 0 \<le> snd p"
    using assms(3) by (rule calculate_channel_reach_nonneg) (simp add: f(1))
  have eff: "list_all (\<lambda>(channel, e). 0 \<le> e \<and> e \<le> 1) (efficiency_factors self1)"
    using assms(2) same by (simp add: valid_dicts_def)
  have g1: "global_overlap_factor self1 \<le> 1" using f(7) same by simp
  let ?raw = "raw_total_reach (calculate_total_reach self1)"
  let ?final = "final_reach (calculate_total_reach self1)"
  have a: "?final \<le> (1 - g) * ?raw"
    using calculate_total_reach_final_le [OF nonneg eff g1] same by (simp add: mult.commute)
  have raw0: "0 \<le> ?raw"
    unfolding calculate_total_reach_raw using nonneg by (intro sum_list_nonneg) auto
  have "(1 - g) * ?raw \<le> 0.65 * ?raw"
    using f(6) raw0 by (intro mult_right_mono) auto
  moreover have "0.65 * ?raw \<le> ?raw" using raw0 by simp
  ultimately show ?thesis using a by auto
qed

lemma one_channel_stage:
  "calculate_channel_reach
     \<lparr>total_universe = 1000000, total_impressions = 10000, max_reach_percent = 90,
      global_overlap_factor = 0.5, distributed_impressions = [(''A'', 1000000)],
      channel_penetration = [(''A'', 1)], efficiency_factors = [(''A'', 0.7)],
      channel_reach = [], channel_contributions = [], raw_total_reach = 0,
      overlapped_reach = 0, final_reach = 0, average_frequency = 0, effective_reach = []\<rparr> =
   Inr \<lparr>total_universe = 1000000, total_impressions = 10000, max_reach_percent = 90,
      global_overlap_factor = 0.5, distributed_impressions = [(''A'', 1000000)],
      channel_penetration = [(''A'', 1)], efficiency_factors = [(''A'', 0.7)],
      channel_reach = [(''A'', 1000000 * (1 - exp (- 1)))],
      channel_contributions = [(''A'', 100)], raw_total_reach = 0,
      overlapped_reach = 0, final_reach = 0, average_frequency = 0, effective_reach = []\<rparr>"
  by (simp add: calculate_channel_reach_def contributions_loop_def truediv_def Let_def
      divide_eq_eq)

theorem final_reach_le_discounted_raw_witness:
  "ReachFrequencyCalculator 1000000 10000 90 0.5 [(''A'', 1000000)] [(''A'', 1)] [(''A'', 0.7)] =
     Inr \<lparr>total_universe = 1000000, total_impressions = 10000, max_reach_percent = 90,
      global_overlap_factor = 0.5, distributed_impressions = [(''A'', 1000000)],
      channel_penetration = [(''A'', 1)], efficiency_factors = [(''A'', 0.7)],
      channel_reach = [], channel_contributions = [], raw_total_reach = 0,
      overlapped_reach = 0, final_reach = 0, average_frequency = 0, effective_reach = []\<rparr> \<and>
   valid_dicts [(''A'', 1000000)] [(''A'', 1)] [(''A'', 0.7)] \<and>
   calculate_channel_reach \<lparr>total_universe = 1000000, total_impressions = 10000, max_reach_percent = 90,
      global_overlap_factor = 0.5, distributed_impressions = [(''A'', 1000000)],
      channel_penetration = [(''A'', 1)], efficiency_factors = [(''A'', 0.7)],
      channel_reach = [], channel_contributions = [], raw_total_reach = 0,
      overlapped_reach = 0, final_reach = 0, average_frequency = 0, effective_reach = []\<rparr> =
     Inr \<lparr>total_universe = 1000000, total_impressions = 10000, max_reach_percent = 90,
      global_overlap_factor = 0.5, distributed_impressions = [(''A'', 1000000)],
      channel_penetration = [(''A'', 1)], efficiency_factors = [(''A'', 0.7)],
      channel_reach = [(''A'', 1000000 * (1 - exp (- 1)))],
      channel_contributions = [(''A'', 100)], raw_total_reach = 0,
      overlapped_reach = 0, final_reach = 0, average_frequency = 0, effective_reach = []\<rparr> \<and>
   raw_total_reach (calculate_total_reach \<lparr>total_universe = 1000000, total_impressions = 10000, max_reach_percent = 90,
      global_overlap_factor = 0.5, distributed_impressions = [(''A'', 1000000)],
      channel_penetration = [(''A'', 1)], efficiency_factors = [(''A'', 0.7)],
      channel_reach = [(''A'', 1000000 * (1 - exp (- 1)))],
      channel_contributions = [(''A'', 100)], raw_total_reach = 0,
      overlapped_reach = 0, final_reach = 0, average_frequency = 0, effective_reach = []\<rparr>) = 1000000 * (1 - exp (- 1)) \<and>
   final_reach (calculate_total_reach \<lparr>total_universe = 1000000, total_impressions = 10000, max_reach_percent = 90,
      global_overlap_factor = 0.5, distributed_impressions = [(''A'', 1000000)],
      channel_penetration = [(''A'', 1)], efficiency_factors = [(''A'', 0.7)],
      channel_reach = [(''A'', 1000000 * (1 - exp (- 1)))],
      channel_contributions = [(''A'', 100)], raw_total_reach = 0,
      overlapped_reach = 0, final_reach = 0, average_frequency = 0, effective_reach = []\<rparr>) \<le>
     0.65 * raw_total_reach (calculate_total_reach \<lparr>total_universe = 1000000, total_impressions = 10000, max_reach_percent = 90,
      global_overlap_factor = 0.5, distributed_impressions = [(''A'', 1000000)],
      channel_penetration = [(''A'', 1)], efficiency_factors = [(''A'', 0.7)],
      channel_reach = [(''A'', 1000000 * (1 - exp (- 1)))],
      channel_contributions = [(''A'', 100)], raw_total_reach = 0,
      overlapped_reach = 0, final_reach = 0, average_frequency = 0, effective_reach = []\<rparr>)"
proof -
  let ?self = "\<lparr>total_universe = 1000000, total_impressions = 10000, max_reach_percent = 90,
      global_overlap_factor = 0.5, distributed_impressions = [(''A'', 1000000)],
      channel_penetration = [(''A'', 1)], efficiency_factors = [(''A'', 0.7)],
      channel_reach = [], channel_contributions = [], raw_total_reach = 0,
      overlapped_reach = 0, final_reach = 0, average_frequency = 0, effective_reach = []\<rparr>"
  let ?self1 = "\<lparr>total_universe = 1000000, total_impressions = 10000, max_reach_percent = 90,
      global_overlap_factor = 0.5, distributed_impressions = [(''A'', 1000000)],
      channel_penetration = [(''A'', 1)], efficiency_factors = [(''A'', 0.7)],
      channel_reach = [(''A'', 1000000 * (1 - exp (- 1)))],
      channel_contributions = [(''A'', 100)], raw_total_reach = 0,
      overlapped_reach = 0, final_reach = 0, average_frequency = 0, effective_reach = []\<rparr>"
  have h1: "ReachFrequencyCalculator 1000000 10000 90 0.5 [(''A'', 1000000)] [(''A'', 1)]
      [(''A'', 0.7)] = Inr ?self"
    by (simp add: ReachFrequencyCalculator_def)
  have h2: "valid_dicts [(''A'', 1000000)] [(''A'', 1)] [(''A'', 0.7)]"
    by (simp add: valid_dicts_def dict_wf_def)
  have h3: "calculate_channel_reach ?self = Inr ?self1"
    by (rule one_channel_stage)
  have h4: "raw_total_reach (calculate_total_reach ?self1) = 1000000 * (1 - exp (- 1))"
    by (simp add: calculate_total_reach_raw)
  from final_reach_le_discounted_raw [OF h1 h2 h3]
  have h5: "final_reach (calculate_total_reach ?self1) \<le>
     0.65 * raw_total_reach (calculate_total_reach ?self1)"
    by (elim conjE)
  show ?thesis by (intro conjI h1 h2 h3 h4 h5)
qed

section \<open>The frequency stage\<close>

text \<open>
  Claim C8. The frequency stage sets the average frequency to 0 when the final reach is not
  positive; otherwise it sets it to the quotient of the total impressions by the final reach,
  clamped into [1, 20], so that it then lies between 1 and 20.
\<close>

theorem average_frequency_clamped:
  "(final_reach self \<le> 0 \<longrightarrow> average_frequency (calculate_frequency self) = 0) \<and>
   (0 < final_reach self \<longrightarrow>
      average_frequency (calculate_frequency self) =
        min (max 1 (real_of_int (total_impressions self) / final_reach self)) 20 \<and>
      1 \<le> average_frequency (calculate_frequency self) \<and>
      average_frequency (calculate_frequency self) \<le> 20)"
  by (simp add: calculate_frequency_def Let_def)

theorem average_frequency_clamped_witness:
  "final_reach \<lparr>total_universe = 1000000, total_impressions = 2000000, max_reach_percent = 90,
      global_overlap_factor = 0.5, distributed_impressions = [], channel_penetration = [],
      efficiency_factors = [], channel_reach = [], channel_contributions = [],
      raw_total_reach = 0, overlapped_reach = 0, final_reach = 0, average_frequency = 7,
      effective_reach = []\<rparr> \<le> 0 \<and>
   average_frequency (calculate_frequency
     \<lparr>total_universe = 1000000, total_impressions = 2000000, max_reach_percent = 90,
      global_overlap_factor = 0.5, distributed_impressions = [], channel_penetration = [],
      efficiency_factors = [], channel_reach = [], channel_contributions = [],
      raw_total_reach = 0, overlapped_reach = 0, final_reach = 0, average_frequency = 7,
      effective_reach = []\<rparr>) = 0 \<and>
   0 < final_reach \<lparr>total_universe = 1000000, total_impressions = 2000000,
      max_reach_percent = 90, global_overlap_factor = 0.5, distributed_impressions = [],
      channel_penetration = [], efficiency_factors = [], channel_reach = [(''A'', 1000000)],
      channel_contributions = [(''A'', 100)], raw_total_reach = 1000000, overlapped_reach = 0,
      final_reach = 250000, average_frequency = 0, effective_reach = []\<rparr> \<and>
   average_frequency (calculate_frequency
     \<lparr>total_universe = 1000000, total_impressions = 2000000,
      max_reach_percent = 90, global_overlap_factor = 0.5, distributed_impressions = [],
      channel_penetration = [], efficiency_factors = [], channel_reach = [(''A'', 1000000)],
      channel_contributions = [(''A'', 100)], raw_total_reach = 1000000, overlapped_reach = 0,
      final_reach = 250000, average_frequency = 0, effective_reach = []\<rparr>) = 8"
  using average_frequency_clamped [of "\<lparr>total_universe = 1000000, total_impressions = 2000000,
      max_reach_percent = 90, global_overlap_factor = 0.5, distributed_impressions = [],
      channel_penetration = [], efficiency_factors = [], channel_reach = [],
      channel_contributions = [], raw_total_reach = 0, overlapped_reach = 0, final_reach = 0,
      average_frequency = 7, effective_reach = []\<rparr>"]
    average_frequency_clamped [of "\<lparr>total_universe = 1000000, total_impressions = 2000000,
      max_reach_percent = 90, global_overlap_factor = 0.5, distributed_impressions = [],
      channel_penetration = [], efficiency_factors = [], channel_reach = [(''A'', 1000000)],
      channel_contributions = [(''A'', 100)], raw_total_reach = 1000000, overlapped_reach = 0,
      final_reach = 250000, average_frequency = 0, effective_reach = []\<rparr>"]
  by simp

section \<open>The keys of the thresholds\<close>

lemma digit_char_inj: "a < 10 \<Longrightarrow> b < 10 \<Longrightarrow> digit_char a = digit_char b \<Longrightarrow> a = b"
  unfolding digit_char_def
  by (subst (asm) nth_eq_iff_index_eq) simp_all

lemma str_nat_nonempty: "str_nat n \<noteq> []"
  by (subst str_nat.simps) simp

lemma str_nat_inj: "str_nat a = str_nat b \<Longrightarrow> a = b"
proof (induction a arbitrary: b rule: str_nat.induct)
  case (1 n)
  show ?case
  proof (cases "n < 10")
    case True
    with "1.prems" have e: "[digit_char n] = str_nat b" by (subst (asm) str_nat.simps) simp
    show ?thesis
    proof (cases "b < 10")
      case b: True
      with e have "digit_char n = digit_char b" by (subst (asm) str_nat.simps) simp
      with True b show ?thesis by (rule digit_char_inj)
    next
      case False
      with e have "[digit_char n] = str_nat (b div 10) @ [digit_char (b mod 10)]"
        by (subst (asm) str_nat.simps) simp
      then have "str_nat (b div 10) = []" by simp
      with str_nat_nonempty show ?thesis by blast
    qed
  next
    case False
    with "1.prems" have e: "str_nat (n div 10) @ [digit_char (n mod 10)] = str_nat b"
      by (subst (asm) str_nat.simps) simp
    show ?thesis
    proof (cases "b < 10")
      case True
      with e have "str_nat (n div 10) @ [digit_char (n mod 10)] = [digit_char b]"
        by (subst (asm) (2) str_nat.simps) simp
      then have "str_nat (n div 10) = []" by simp
      with str_nat_nonempty show ?thesis by blast
    next
      case b: False
      with e have "str_nat (n div 10) @ [digit_char (n mod 10)] =
          str_nat (b div 10) @ [digit_char (b mod 10)]"
        by (subst (asm) (2) str_nat.simps) simp
      then have p: "str_nat (n div 10) = str_nat (b div 10)"
        and d: "digit_char (n mod 10) = digit_char (b mod 10)"
        by simp_all
      from "1.IH" [OF False p] have "n div 10 = b div 10" .
      moreover from d have "n mod 10 = b mod 10" by (intro digit_char_inj) simp_all
      ultimately show ?thesis by (metis div_mult_mod_eq)
    qed
  qed
qed

lemma threshold_key_inj: "0 \<le> i \<Longrightarrow> 0 \<le> j \<Longrightarrow> threshold_key i = threshold_key j \<Longrightarrow> i = j"
  by (auto simp: threshold_key_def str_int_def dest!: str_nat_inj)


section \<open>The effective reach stage\<close>

lemma effective_reach_loop_other:
  "key \<notin> threshold_key ` set is \<Longrightarrow>
     map_of (fst (effective_reach_loop x m is (eff, cur))) key = map_of eff key"
  by (induction "is" arbitrary: eff cur) (simp_all add: Let_def update_conv')

lemma effective_reach_loop_lookup:
  "0 \<le> a \<Longrightarrow> a \<le> k \<Longrightarrow> k \<le> b \<Longrightarrow>
     map_of (fst (effective_reach_loop x m [a..b] (eff, cur))) (threshold_key k) =
       Some (min (max 0 (cur * (1 - x) ^ nat (k - a + 1))) m)"
proof (induction a b arbitrary: eff cur rule: upto.induct)
  case (1 i j)
  from "1.prems" have ij: "i \<le> j" by simp
  then have unfold: "[i..j] = i # [i + 1..j]" by (rule upto_rec1)
  let ?eff = "AList.update (threshold_key i) (min (max 0 (cur * (1 - x))) m) eff"
  have step: "effective_reach_loop x m [i..j] (eff, cur) =
      effective_reach_loop x m [i + 1..j] (?eff, cur * (1 - x))"
    by (simp add: unfold Let_def)
  show ?case
  proof (cases "k = i")
    case True
    have "threshold_key i \<notin> threshold_key ` set [i + 1..j]"
    proof
      assume "threshold_key i \<in> threshold_key ` set [i + 1..j]"
      then obtain l where l: "i + 1 \<le> l" "threshold_key i = threshold_key l" by auto
      with "1.prems"(1) have "i = l" by (intro threshold_key_inj) simp_all
      with l show False by simp
    qed
    then have "map_of (fst (effective_reach_loop x m [i + 1..j] (?eff, cur * (1 - x))))
        (threshold_key i) = map_of ?eff (threshold_key i)"
      by (rule effective_reach_loop_other)
    with True step show ?thesis by (simp add: update_conv')
  next
    case False
    with "1.prems" have k: "i + 1 \<le> k" "0 \<le> i + 1" by simp_all
    have e: "nat (k - i + 1) = Suc (nat (k - (i + 1) + 1))" using k by simp
    from "1.IH" [OF ij k(2) k(1) "1.prems"(3), of ?eff "cur * (1 - x)"] step
    show ?thesis by (simp add: e mult.assoc)
  qed
qed

lemma calculate_effective_reach_ladder:
  assumes "total_universe self \<noteq> 0" and "0 < final_reach self" and "0 < average_frequency self"
  shows "\<exists>d. calculate_effective_reach self mf = Inr (d, self\<lparr>effective_reach := d\<rparr>) \<and>
    (\<forall>k. 2 \<le> k \<and> k \<le> mf \<longrightarrow> map_of d (threshold_key k) =
       Some (min (max 0 (final_reach self / real_of_int (total_universe self) * 100 *
          (1 - 1 / max 1 (average_frequency self)) ^ nat (k - 1))) (max_reach_percent self)))"
proof -
  let ?rp = "final_reach self / real_of_int (total_universe self) * 100"
  let ?x = "1 / max 1 (average_frequency self)"
  let ?d = "fst (effective_reach_loop ?x (max_reach_percent self) [2..mf] ([], ?rp))"
  have run: "calculate_effective_reach self mf = Inr (?d, self\<lparr>effective_reach := ?d\<rparr>)"
    using assms by (simp add: calculate_effective_reach_def truediv_def Let_def split_beta)
  have "map_of ?d (threshold_key k) =
      Some (min (max 0 (?rp * (1 - ?x) ^ nat (k - 1))) (max_reach_percent self))"
    if "2 \<le> k \<and> k \<le> mf" for k
  proof -
    have "nat (k - 2 + 1) = nat (k - 1)" by simp
    with effective_reach_loop_lookup [of 2 k mf ?x "max_reach_percent self" "[]" ?rp] that
    show ?thesis by simp
  qed
  with run show ?thesis by blast
qed


lemma clamp_inactive: "0 \<le> v \<Longrightarrow> v \<le> m \<Longrightarrow> min (max 0 v) m = (v::real)"
  by simp

lemma decay_factor_bounds:
  "0 \<le> 1 - 1 / max 1 (f::real) \<and> 1 - 1 / max 1 f \<le> 1"
  by (simp add: max_def)

lemma calculate_total_reach_cap:
  assumes "0 < final_reach (calculate_total_reach self)"
  shows "final_reach (calculate_total_reach self) \<le>
    max_reach_percent self / 100 * real_of_int (total_universe self)"
proof (cases "channel_reach self = []")
  case True
  with assms show ?thesis by (simp add: calculate_total_reach_def)
next
  case False
  then show ?thesis by (simp add: calculate_total_reach_def Let_def)
qed

lemma calculate_total_reach_inputs:
  "total_universe (calculate_total_reach self) = total_universe self"
  "max_reach_percent (calculate_total_reach self) = max_reach_percent self"
  "total_impressions (calculate_total_reach self) = total_impressions self"
  by (simp_all add: calculate_total_reach_def Let_def)

lemma calculate_frequency_inputs:
  "total_universe (calculate_frequency self) = total_universe self"
  "max_reach_percent (calculate_frequency self) = max_reach_percent self"
  "final_reach (calculate_frequency self) = final_reach self"
  by (simp_all add: calculate_frequency_def Let_def)

text \<open>
  Claim C6. In a run, on the calculator left by the total reach stage and the frequency stage
  with a positive final reach and a positive average frequency, the effective reach stage
  returns and stores a dictionary in which, for every \<open>k\<close> from 2 to \<open>max_frequency\<close>, the key
  \<open>"k+"\<close> holds the clamp into [0, \<open>max_reach_percent\<close>] of
  \<open>reach_percent * (1 - x) ^ (k - 1)\<close>, where \<open>reach_percent = final_reach / total_universe * 100\<close>
  and \<open>x = 1 / max(1, average_frequency)\<close>; the clamp leaves that value as it is, and the value
  at the next key is this value times \<open>1 - x\<close>.
\<close>

theorem effective_reach_geometric:
  assumes "1000000 \<le> total_universe self1"
    and "self = calculate_frequency (calculate_total_reach self1)"
    and "0 < final_reach self" and "0 < average_frequency self"
  shows "\<exists>d. calculate_effective_reach self mf = Inr (d, self\<lparr>effective_reach := d\<rparr>) \<and>
    (\<forall>k. 2 \<le> k \<and> k \<le> mf \<longrightarrow>
       map_of d (threshold_key k) =
         Some (min (max 0 (final_reach self / real_of_int (total_universe self) * 100 *
            (1 - 1 / max 1 (average_frequency self)) ^ nat (k - 1))) (max_reach_percent self)) \<and>
       map_of d (threshold_key k) =
         Some (final_reach self / real_of_int (total_universe self) * 100 *
            (1 - 1 / max 1 (average_frequency self)) ^ nat (k - 1)) \<and>
       (k < mf \<longrightarrow> map_of d (threshold_key (k + 1)) =
         Some (final_reach self / real_of_int (total_universe self) * 100 *
            (1 - 1 / max 1 (average_frequency self)) ^ nat (k - 1) *
            (1 - 1 / max 1 (average_frequency self)))))"
proof -
  let ?U = "real_of_int (total_universe self)"
  let ?rp = "final_reach self / ?U * 100"
  let ?q = "1 - 1 / max 1 (average_frequency self)"
  let ?m = "max_reach_percent self"
  have U: "total_universe self = total_universe self1" "max_reach_percent self = max_reach_percent self1"
    and fr: "final_reach self = final_reach (calculate_total_reach self1)"
    by (simp_all add: assms(2) calculate_frequency_inputs calculate_total_reach_inputs)
  have Upos: "0 < ?U" using assms(1) U by simp
  have "final_reach self \<le> ?m / 100 * ?U"
    using calculate_total_reach_cap [of self1] assms(3) fr U by simp
  then have "final_reach self / ?U \<le> ?m / 100"
    using Upos by (simp add: divide_le_eq)
  then have rp_le: "?rp \<le> ?m" by simp
  have rp0: "0 \<le> ?rp" using assms(3) Upos by simp
  have q0: "0 \<le> ?q" by (rule conjunct1 [OF decay_factor_bounds])
  have q1: "?q \<le> 1" by (rule conjunct2 [OF decay_factor_bounds])
  have val: "0 \<le> ?rp * ?q ^ n \<and> ?rp * ?q ^ n \<le> ?m" for n
  proof
    show "0 \<le> ?rp * ?q ^ n" by (intro mult_nonneg_nonneg zero_le_power rp0 q0)
    have "?q ^ n \<le> 1" by (intro power_le_one q0 q1)
    then have "?rp * ?q ^ n \<le> ?rp * 1" by (intro mult_left_mono rp0)
    with rp_le show "?rp * ?q ^ n \<le> ?m" by (simp only: mult_1_right)
  qed
  have unclamped: "min (max 0 (?rp * ?q ^ n)) ?m = ?rp * ?q ^ n" for n
    by (rule clamp_inactive [OF conjunct1 [OF val] conjunct2 [OF val]])
  from Upos have "total_universe self \<noteq> 0" by auto
  from calculate_effective_reach_ladder [OF this assms(3,4), of mf] obtain d where
    run: "calculate_effective_reach self mf = Inr (d, self\<lparr>effective_reach := d\<rparr>)" and
    lad: "\<And>k. 2 \<le> k \<and> k \<le> mf \<Longrightarrow> map_of d (threshold_key k) =
       Some (min (max 0 (?rp * ?q ^ nat (k - 1))) ?m)"
    by blast
  have "map_of d (threshold_key k) = Some (min (max 0 (?rp * ?q ^ nat (k - 1))) ?m) \<and>
      map_of d (threshold_key k) = Some (?rp * ?q ^ nat (k - 1)) \<and>
      (k < mf \<longrightarrow> map_of d (threshold_key (k + 1)) = Some (?rp * ?q ^ nat (k - 1) * ?q))"
    if k: "2 \<le> k \<and> k \<le> mf" for k
  proof (intro conjI impI)
    show "map_of d (threshold_key k) = Some (min (max 0 (?rp * ?q ^ nat (k - 1))) ?m)"
      using k by (rule lad)
    then show "map_of d (threshold_key k) = Some (?rp * ?q ^ nat (k - 1))"
      by (simp only: unclamped)
    assume "k < mf"
    with k have "2 \<le> k + 1 \<and> k + 1 \<le> mf" by simp
    from lad [OF this] have "map_of d (threshold_key (k + 1)) = Some (?rp * ?q ^ nat (k + 1 - 1))"
      by (simp only: unclamped)
    moreover have "nat (k + 1 - 1) = Suc (nat (k - 1))" using k by linarith
    ultimately show "map_of d (threshold_key (k + 1)) = Some (?rp * ?q ^ nat (k - 1) * ?q)"
      by (simp add: mult.assoc mult.commute)
  qed
  with run show ?thesis by blast
qed

lemma threshold_keys_2_6:
  "threshold_key 2 = ''2+''" "threshold_key 3 = ''3+''" "threshold_key 4 = ''4+''"
  "threshold_key 5 = ''5+''" "threshold_key 6 = ''6+''"
  by (simp_all add: threshold_key_def str_int_def str_nat.simps digit_char_def)

lemma example_stages:
  "calculate_frequency (calculate_total_reach \<lparr>total_universe = 1000000, total_impressions = 800000, max_reach_percent = 90,
      global_overlap_factor = 0.5, distributed_impressions = [(''A'', 1200000)],
      channel_penetration = [(''A'', 1)], efficiency_factors = [(''A'', 0.8)],
      channel_reach = [(''A'', 1000000)], channel_contributions = [(''A'', 100)],
      raw_total_reach = 0, overlapped_reach = 0, final_reach = 0,
      average_frequency = 0, effective_reach = []\<rparr>) =
     \<lparr>total_universe = 1000000, total_impressions = 800000, max_reach_percent = 90,
      global_overlap_factor = 0.5, distributed_impressions = [(''A'', 1200000)],
      channel_penetration = [(''A'', 1)], efficiency_factors = [(''A'', 0.8)],
      channel_reach = [(''A'', 1000000)], channel_contributions = [(''A'', 100)],
      raw_total_reach = 1000000, overlapped_reach = 0, final_reach = 400000,
      average_frequency = 2, effective_reach = []\<rparr>"
  by (simp add: calculate_total_reach_def calculate_frequency_def dict_get_def Let_def)

lemma example_ladder:
  "calculate_effective_reach \<lparr>total_universe = 1000000, total_impressions = 800000, max_reach_percent = 90,
      global_overlap_factor = 0.5, distributed_impressions = [(''A'', 1200000)],
      channel_penetration = [(''A'', 1)], efficiency_factors = [(''A'', 0.8)],
      channel_reach = [(''A'', 1000000)], channel_contributions = [(''A'', 100)],
      raw_total_reach = 1000000, overlapped_reach = 0, final_reach = 400000,
      average_frequency = 2, effective_reach = []\<rparr> 6 =
     Inr ([(''2+'', 20 :: real), (''3+'', 10), (''4+'', 5), (''5+'', 5 / 2), (''6+'', 5 / 4)],
       \<lparr>total_universe = 1000000, total_impressions = 800000, max_reach_percent = 90,
      global_overlap_factor = 0.5, distributed_impressions = [(''A'', 1200000)],
      channel_penetration = [(''A'', 1)], efficiency_factors = [(''A'', 0.8)],
      channel_reach = [(''A'', 1000000)], channel_contributions = [(''A'', 100)],
      raw_total_reach = 1000000, overlapped_reach = 0, final_reach = 400000,
      average_frequency = 2, effective_reach = []\<rparr>\<lparr>effective_reach := [(''2+'', 20 :: real), (''3+'', 10), (''4+'', 5), (''5+'', 5 / 2), (''6+'', 5 / 4)]\<rparr>)"
  by (simp add: calculate_effective_reach_def truediv_def Let_def threshold_keys_2_6)


theorem effective_reach_geometric_witness:
  "1000000 \<le> total_universe \<lparr>total_universe = 1000000, total_impressions = 800000, max_reach_percent = 90,
      global_overlap_factor = 0.5, distributed_impressions = [(''A'', 1200000)],
      channel_penetration = [(''A'', 1)], efficiency_factors = [(''A'', 0.8)],
      channel_reach = [(''A'', 1000000)], channel_contributions = [(''A'', 100)],
      raw_total_reach = 0, overlapped_reach = 0, final_reach = 0,
      average_frequency = 0, effective_reach = []\<rparr> \<and>
   \<lparr>total_universe = 1000000, total_impressions = 800000, max_reach_percent = 90,
      global_overlap_factor = 0.5, distributed_impressions = [(''A'', 1200000)],
      channel_penetration = [(''A'', 1)], efficiency_factors = [(''A'', 0.8)],
      channel_reach = [(''A'', 1000000)], channel_contributions = [(''A'', 100)],
      raw_total_reach = 1000000, overlapped_reach = 0, final_reach = 400000,
      average_frequency = 2, effective_reach = []\<rparr> = calculate_frequency (calculate_total_reach \<lparr>total_universe = 1000000, total_impressions = 800000, max_reach_percent = 90,
      global_overlap_factor = 0.5, distributed_impressions = [(''A'', 1200000)],
      channel_penetration = [(''A'', 1)], efficiency_factors = [(''A'', 0.8)],
      channel_reach = [(''A'', 1000000)], channel_contributions = [(''A'', 100)],
      raw_total_reach = 0, overlapped_reach = 0, final_reach = 0,
      average_frequency = 0, effective_reach = []\<rparr>) \<and>
   0 < final_reach \<lparr>total_universe = 1000000, total_impressions = 800000, max_reach_percent = 90,
      global_overlap_factor = 0.5, distributed_impressions = [(''A'', 1200000)],
      channel_penetration = [(''A'', 1)], efficiency_factors = [(''A'', 0.8)],
      channel_reach = [(''A'', 1000000)], channel_contributions = [(''A'', 100)],
      raw_total_reach = 1000000, overlapped_reach = 0, final_reach = 400000,
      average_frequency = 2, effective_reach = []\<rparr> \<and>
   0 < average_frequency \<lparr>total_universe = 1000000, total_impressions = 800000, max_reach_percent = 90,
      global_overlap_factor = 0.5, distributed_impressions = [(''A'', 1200000)],
      channel_penetration = [(''A'', 1)], efficiency_factors = [(''A'', 0.8)],
      channel_reach = [(''A'', 1000000)], channel_contributions = [(''A'', 100)],
      raw_total_reach = 1000000, overlapped_reach = 0, final_reach = 400000,
      average_frequency = 2, effective_reach = []\<rparr> \<and>
   calculate_effective_reach \<lparr>total_universe = 1000000, total_impressions = 800000, max_reach_percent = 90,
      global_overlap_factor = 0.5, distributed_impressions = [(''A'', 1200000)],
      channel_penetration = [(''A'', 1)], efficiency_factors = [(''A'', 0.8)],
      channel_reach = [(''A'', 1000000)], channel_contributions = [(''A'', 100)],
      raw_total_reach = 1000000, overlapped_reach = 0, final_reach = 400000,
      average_frequency = 2, effective_reach = []\<rparr> 6 =
     Inr ([(''2+'', 20 :: real), (''3+'', 10), (''4+'', 5), (''5+'', 5 / 2), (''6+'', 5 / 4)],
       \<lparr>total_universe = 1000000, total_impressions = 800000, max_reach_percent = 90,
      global_overlap_factor = 0.5, distributed_impressions = [(''A'', 1200000)],
      channel_penetration = [(''A'', 1)], efficiency_factors = [(''A'', 0.8)],
      channel_reach = [(''A'', 1000000)], channel_contributions = [(''A'', 100)],
      raw_total_reach = 1000000, overlapped_reach = 0, final_reach = 400000,
      average_frequency = 2, effective_reach = []\<rparr>\<lparr>effective_reach := [(''2+'', 20 :: real), (''3+'', 10), (''4+'', 5), (''5+'', 5 / 2), (''6+'', 5 / 4)]\<rparr>) \<and>
   map_of [(''2+'', 20 :: real), (''3+'', 10), (''4+'', 5), (''5+'', 5 / 2), (''6+'', 5 / 4)] ''4+'' = Some (40 * (1 - 1 / 2) ^ 3) \<and>
   map_of [(''2+'', 20 :: real), (''3+'', 10), (''4+'', 5), (''5+'', 5 / 2), (''6+'', 5 / 4)] ''5+'' = Some (40 * (1 - 1 / 2) ^ 3 * (1 - 1 / 2))"
proof -
  let ?self1 = "\<lparr>total_universe = 1000000, total_impressions = 800000, max_reach_percent = 90,
      global_overlap_factor = 0.5, distributed_impressions = [(''A'', 1200000)],
      channel_penetration = [(''A'', 1)], efficiency_factors = [(''A'', 0.8)],
      channel_reach = [(''A'', 1000000)], channel_contributions = [(''A'', 100)],
      raw_total_reach = 0, overlapped_reach = 0, final_reach = 0,
      average_frequency = 0, effective_reach = []\<rparr>"
  let ?self = "\<lparr>total_universe = 1000000, total_impressions = 800000, max_reach_percent = 90,
      global_overlap_factor = 0.5, distributed_impressions = [(''A'', 1200000)],
      channel_penetration = [(''A'', 1)], efficiency_factors = [(''A'', 0.8)],
      channel_reach = [(''A'', 1000000)], channel_contributions = [(''A'', 100)],
      raw_total_reach = 1000000, overlapped_reach = 0, final_reach = 400000,
      average_frequency = 2, effective_reach = []\<rparr>"
  let ?lad = "[(''2+'', 20 :: real), (''3+'', 10), (''4+'', 5), (''5+'', 5 / 2), (''6+'', 5 / 4)]"
  have h1: "1000000 \<le> total_universe ?self1" by simp
  have h2: "?self = calculate_frequency (calculate_total_reach ?self1)"
    by (rule example_stages [symmetric])
  have h3: "0 < final_reach ?self" by simp
  have h4: "0 < average_frequency ?self" by simp
  from effective_reach_geometric [OF h1 h2 h3 h4, of 6] obtain d where
    run: "calculate_effective_reach ?self 6 = Inr (d, ?self\<lparr>effective_reach := d\<rparr>)" and
    lad: "\<forall>k. 2 \<le> k \<and> k \<le> 6 \<longrightarrow>
       map_of d (threshold_key k) =
         Some (min (max 0 (final_reach ?self / real_of_int (total_universe ?self) * 100 *
            (1 - 1 / max 1 (average_frequency ?self)) ^ nat (k - 1))) (max_reach_percent ?self)) \<and>
       map_of d (threshold_key k) =
         Some (final_reach ?self / real_of_int (total_universe ?self) * 100 *
            (1 - 1 / max 1 (average_frequency ?self)) ^ nat (k - 1)) \<and>
       (k < 6 \<longrightarrow> map_of d (threshold_key (k + 1)) =
         Some (final_reach ?self / real_of_int (total_universe ?self) * 100 *
            (1 - 1 / max 1 (average_frequency ?self)) ^ nat (k - 1) *
            (1 - 1 / max 1 (average_frequency ?self))))"
    by (elim exE conjE)
  from run have d: "d = ?lad" unfolding example_ladder by simp
  have k4: "2 \<le> (4::int) \<and> 4 \<le> (6::int)" by simp
  note l4 = lad [rule_format, OF k4]
  have h5: "map_of ?lad ''4+'' = Some (40 * (1 - 1 / 2) ^ 3)"
    using l4 [THEN conjunct2, THEN conjunct1] unfolding d
    by (simp add: threshold_keys_2_6 power_divide)
  have h6: "map_of ?lad ''5+'' = Some (40 * (1 - 1 / 2) ^ 3 * (1 - 1 / 2))"
    using l4 [THEN conjunct2, THEN conjunct2] unfolding d
    by (simp add: threshold_keys_2_6 power_divide)
  have h7: "calculate_effective_reach ?self 6 = Inr (?lad, ?self\<lparr>effective_reach := ?lad\<rparr>)"
    by (rule example_ladder)
  show ?thesis by (intro conjI h1 h2 h3 h4 h5 h6 h7)
qed

text \<open>
  Claim C7. On a calculator with a validated universe, a positive final reach and a positive
  average frequency, the effective reach stage returns and stores a ladder that does not
  increase: for thresholds \<open>j \<le> k\<close> between 2 and \<open>max_frequency\<close>, both keys are present and
  the value at \<open>"k+"\<close> is at most the value at \<open>"j+"\<close>.
\<close>

theorem effective_reach_monotone:
  assumes "1000000 \<le> total_universe self"
    and "0 < final_reach self" and "0 < average_frequency self"
  shows "\<exists>d. calculate_effective_reach self mf = Inr (d, self\<lparr>effective_reach := d\<rparr>) \<and>
    (\<forall>j k. 2 \<le> j \<and> j \<le> k \<and> k \<le> mf \<longrightarrow>
       (\<exists>a b. map_of d (threshold_key j) = Some a \<and> map_of d (threshold_key k) = Some b \<and>
          b \<le> a))"
proof -
  let ?U = "real_of_int (total_universe self)"
  let ?rp = "final_reach self / ?U * 100"
  let ?q = "1 - 1 / max 1 (average_frequency self)"
  let ?m = "max_reach_percent self"
  let ?v = "\<lambda>k. min (max 0 (?rp * ?q ^ nat (k - 1))) ?m"
  have Upos: "0 < ?U" using assms(1) by simp
  have rp0: "0 \<le> ?rp" using assms(2) Upos by simp
  have q0: "0 \<le> ?q" by (rule conjunct1 [OF decay_factor_bounds])
  have q1: "?q \<le> 1" by (rule conjunct2 [OF decay_factor_bounds])
  from Upos have "total_universe self \<noteq> 0" by auto
  from calculate_effective_reach_ladder [OF this assms(2,3), of mf] obtain d where
    run: "calculate_effective_reach self mf = Inr (d, self\<lparr>effective_reach := d\<rparr>)" and
    lad: "\<And>k. 2 \<le> k \<and> k \<le> mf \<Longrightarrow> map_of d (threshold_key k) = Some (?v k)"
    by blast
  have "\<exists>a b. map_of d (threshold_key j) = Some a \<and> map_of d (threshold_key k) = Some b \<and> b \<le> a"
    if jk: "2 \<le> j \<and> j \<le> k \<and> k \<le> mf" for j k
  proof -
    from jk have "nat (j - 1) \<le> nat (k - 1)" by linarith
    then have "?q ^ nat (k - 1) \<le> ?q ^ nat (j - 1)" by (intro power_decreasing q0 q1)
    then have "?rp * ?q ^ nat (k - 1) \<le> ?rp * ?q ^ nat (j - 1)" by (intro mult_left_mono rp0)
    then have le: "?v k \<le> ?v j" by (intro min.mono max.mono order_refl)
    from jk have "map_of d (threshold_key j) = Some (?v j)" by (intro lad) simp
    moreover from jk have "map_of d (threshold_key k) = Some (?v k)" by (intro lad) simp
    ultimately show ?thesis using le by blast
  qed
  with run show ?thesis by blast
qed

theorem effective_reach_monotone_witness:
  "1000000 \<le> total_universe \<lparr>total_universe = 1000000, total_impressions = 800000, max_reach_percent = 90,
      global_overlap_factor = 0.5, distributed_impressions = [(''A'', 1200000)],
      channel_penetration = [(''A'', 1)], efficiency_factors = [(''A'', 0.8)],
      channel_reach = [(''A'', 1000000)], channel_contributions = [(''A'', 100)],
      raw_total_reach = 1000000, overlapped_reach = 0, final_reach = 400000,
      average_frequency = 2, effective_reach = []\<rparr> \<and>
   0 < final_reach \<lparr>total_universe = 1000000, total_impressions = 800000, max_reach_percent = 90,
      global_overlap_factor = 0.5, distributed_impressions = [(''A'', 1200000)],
      channel_penetration = [(''A'', 1)], efficiency_factors = [(''A'', 0.8)],
      channel_reach = [(''A'', 1000000)], channel_contributions = [(''A'', 100)],
      raw_total_reach = 1000000, overlapped_reach = 0, final_reach = 400000,
      average_frequency = 2, effective_reach = []\<rparr> \<and>
   0 < average_frequency \<lparr>total_universe = 1000000, total_impressions = 800000, max_reach_percent = 90,
      global_overlap_factor = 0.5, distributed_impressions = [(''A'', 1200000)],
      channel_penetration = [(''A'', 1)], efficiency_factors = [(''A'', 0.8)],
      channel_reach = [(''A'', 1000000)], channel_contributions = [(''A'', 100)],
      raw_total_reach = 1000000, overlapped_reach = 0, final_reach = 400000,
      average_frequency = 2, effective_reach = []\<rparr> \<and>
   calculate_effective_reach \<lparr>total_universe = 1000000, total_impressions = 800000, max_reach_percent = 90,
      global_overlap_factor = 0.5, distributed_impressions = [(''A'', 1200000)],
      channel_penetration = [(''A'', 1)], efficiency_factors = [(''A'', 0.8)],
      channel_reach = [(''A'', 1000000)], channel_contributions = [(''A'', 100)],
      raw_total_reach = 1000000, overlapped_reach = 0, final_reach = 400000,
      average_frequency = 2, effective_reach = []\<rparr> 6 =
     Inr ([(''2+'', 20 :: real), (''3+'', 10), (''4+'', 5), (''5+'', 5 / 2), (''6+'', 5 / 4)],
       \<lparr>total_universe = 1000000, total_impressions = 800000, max_reach_percent = 90,
      global_overlap_factor = 0.5, distributed_impressions = [(''A'', 1200000)],
      channel_penetration = [(''A'', 1)], efficiency_factors = [(''A'', 0.8)],
      channel_reach = [(''A'', 1000000)], channel_contributions = [(''A'', 100)],
      raw_total_reach = 1000000, overlapped_reach = 0, final_reach = 400000,
      average_frequency = 2, effective_reach = []\<rparr>\<lparr>effective_reach := [(''2+'', 20 :: real), (''3+'', 10), (''4+'', 5), (''5+'', 5 / 2), (''6+'', 5 / 4)]\<rparr>) \<and>
   (\<exists>a b. map_of [(''2+'', 20 :: real), (''3+'', 10), (''4+'', 5), (''5+'', 5 / 2), (''6+'', 5 / 4)] ''2+'' = Some a \<and>
      map_of [(''2+'', 20 :: real), (''3+'', 10), (''4+'', 5), (''5+'', 5 / 2), (''6+'', 5 / 4)] ''6+'' = Some b \<and> b \<le> a)"
proof -
  let ?self = "\<lparr>total_universe = 1000000, total_impressions = 800000, max_reach_percent = 90,
      global_overlap_factor = 0.5, distributed_impressions = [(''A'', 1200000)],
      channel_penetration = [(''A'', 1)], efficiency_factors = [(''A'', 0.8)],
      channel_reach = [(''A'', 1000000)], channel_contributions = [(''A'', 100)],
      raw_total_reach = 1000000, overlapped_reach = 0, final_reach = 400000,
      average_frequency = 2, effective_reach = []\<rparr>"
  let ?lad = "[(''2+'', 20 :: real), (''3+'', 10), (''4+'', 5), (''5+'', 5 / 2), (''6+'', 5 / 4)]"
  have h1: "1000000 \<le> total_universe ?self" by simp
  have h2: "0 < final_reach ?self" by simp
  have h3: "0 < average_frequency ?self" by simp
  from effective_reach_monotone [OF h1 h2 h3, of 6] obtain d where
    run: "calculate_effective_reach ?self 6 = Inr (d, ?self\<lparr>effective_reach := d\<rparr>)" and
    mono: "\<forall>j k. 2 \<le> j \<and> j \<le> k \<and> k \<le> 6 \<longrightarrow>
       (\<exists>a b. map_of d (threshold_key j) = Some a \<and> map_of d (threshold_key k) = Some b \<and>
          b \<le> a)"
    by (elim exE conjE)
  from run have d: "d = ?lad" unfolding example_ladder by simp
  from mono [rule_format, of 2 6] have
    h5: "\<exists>a b. map_of ?lad ''2+'' = Some a \<and> map_of ?lad ''6+'' = Some b \<and> b \<le> a"
    unfolding d threshold_keys_2_6 by simp
  have h4: "calculate_effective_reach ?self 6 = Inr (?lad, ?self\<lparr>effective_reach := ?lad\<rparr>)"
    by (rule example_ladder)
  show ?thesis by (intro conjI h1 h2 h3 h4 h5)
qed

section \<open>The whole calculation\<close>

lemma effective_reach_loop_values:
  "0 \<le> m \<Longrightarrow> \<forall>p\<in>set eff. 0 \<le> snd p \<and> snd p \<le> m \<Longrightarrow>
     \<forall>p\<in>set (fst (effective_reach_loop x m is (eff, cur))). 0 \<le> snd p \<and> snd p \<le> m"
proof (induction "is" arbitrary: eff cur)
  case Nil
  then show ?case by simp
next
  case (Cons i "is")
  let ?eff = "AList.update (threshold_key i) (min (max 0 (cur * (1 - x))) m) eff"
  have "\<forall>p\<in>set ?eff. 0 \<le> snd p \<and> snd p \<le> m"
    using Cons.prems by (auto dest!: update_values)
  from Cons.IH [OF Cons.prems(1) this, of "cur * (1 - x)"] show ?case
    by (simp add: Let_def)
qed

lemma calculate_effective_reach_total:
  assumes "total_universe self \<noteq> 0"
  shows "\<exists>d e. calculate_effective_reach self mf = Inr (d, self\<lparr>effective_reach := e\<rparr>) \<and>
    (e = effective_reach self \<or>
     (0 \<le> max_reach_percent self \<longrightarrow>
       (\<forall>p\<in>set e. 0 \<le> snd p \<and> snd p \<le> max_reach_percent self)))"
proof (cases "final_reach self \<le> 0 \<or> average_frequency self \<le> 0")
  case True
  then have "calculate_effective_reach self mf =
      Inr (fold (\<lambda>i. AList.update (threshold_key i) 0) [2..mf] [],
           self\<lparr>effective_reach := effective_reach self\<rparr>)"
    by (simp add: calculate_effective_reach_def)
  then show ?thesis by blast
next
  case False
  let ?rp = "final_reach self / real_of_int (total_universe self) * 100"
  let ?x = "1 / max 1 (average_frequency self)"
  let ?d = "fst (effective_reach_loop ?x (max_reach_percent self) [2..mf] ([], ?rp))"
  have run: "calculate_effective_reach self mf = Inr (?d, self\<lparr>effective_reach := ?d\<rparr>)"
    using assms False by (simp add: calculate_effective_reach_def truediv_def Let_def split_beta)
  have "\<forall>p\<in>set ?d. 0 \<le> snd p \<and> snd p \<le> max_reach_percent self"
    if "0 \<le> max_reach_percent self"
    using that by (intro effective_reach_loop_values) simp_all
  with run show ?thesis by blast
qed

lemma calculate_total_reach_fields:
  "total_universe (calculate_total_reach self) = total_universe self"
  "channel_contributions (calculate_total_reach self) = channel_contributions self"
  "overlapped_reach (calculate_total_reach self) = overlapped_reach self"
  "effective_reach (calculate_total_reach self) = effective_reach self"
  "average_frequency (calculate_total_reach self) = average_frequency self"
  "global_overlap_factor (calculate_total_reach self) = global_overlap_factor self"
  by (simp_all add: calculate_total_reach_def Let_def)

lemma calculate_frequency_fields:
  "total_universe (calculate_frequency self) = total_universe self"
  "channel_contributions (calculate_frequency self) = channel_contributions self"
  "overlapped_reach (calculate_frequency self) = overlapped_reach self"
  "effective_reach (calculate_frequency self) = effective_reach self"
  "raw_total_reach (calculate_frequency self) = raw_total_reach self"
  "final_reach (calculate_frequency self) = final_reach self"
  "global_overlap_factor (calculate_frequency self) = global_overlap_factor self"
  by (simp_all add: calculate_frequency_def Let_def)

lemma run_all_calculations_result:
  assumes "calculate_channel_reach self = Inr self1" and "total_universe self1 \<noteq> 0"
    and "calculate_effective_reach (calculate_frequency (calculate_total_reach self1)) 6 =
      Inr (d, (calculate_frequency (calculate_total_reach self1))\<lparr>effective_reach := e\<rparr>)"
  shows "run_all_calculations self =
    Inr (\<lparr>res_channel_contributions = channel_contributions self1,
          res_raw_reach_percent = raw_total_reach (calculate_total_reach self1) /
            real_of_int (total_universe self1) * 100,
          res_overlapped_reach_percent = overlapped_reach self1 /
            real_of_int (total_universe self1) * 100,
          res_final_reach = final_reach (calculate_total_reach self1),
          res_final_reach_percent = final_reach (calculate_total_reach self1) /
            real_of_int (total_universe self1) * 100,
          res_average_frequency =
            average_frequency (calculate_frequency (calculate_total_reach self1)),
          res_effective_reach = e\<rparr>,
         (calculate_frequency (calculate_total_reach self1))\<lparr>effective_reach := e\<rparr>)"
proof -
  let ?s3 = "calculate_frequency (calculate_total_reach self1)"
  let ?s4 = "?s3\<lparr>effective_reach := e\<rparr>"
  have f: "channel_contributions ?s4 = channel_contributions self1"
    "raw_total_reach ?s4 = raw_total_reach (calculate_total_reach self1)"
    "overlapped_reach ?s4 = overlapped_reach self1"
    "final_reach ?s4 = final_reach (calculate_total_reach self1)"
    "real_of_int (total_universe ?s4) = real_of_int (total_universe self1)"
    "average_frequency ?s4 = average_frequency ?s3"
    "effective_reach ?s4 = e"
    by (simp_all add: calculate_frequency_fields calculate_total_reach_fields)
  have U: "real_of_int (total_universe self1) \<noteq> 0" using assms(2) by simp
  show ?thesis
    unfolding run_all_calculations_def Let_def
    by (simp only: assms(1) assms(3) sum.case prod.case truediv_def f U if_False)
qed














text \<open>
  Claim C3 fails on the source. A channel with penetration 0 and one impression makes
  \<open>max_possible_reach\<close> zero, and the quotient \<open>-impressions / max_possible_reach\<close> raises
  \<open>ZeroDivisionError\<close>: the channel reach stage, and with it the whole calculation, ends with
  that error on a plan that is valid.
\<close>

theorem zero_penetration_raises:
  "valid_dicts [(''A'', 1)] [(''A'', 0)] [(''A'', 0.7)] \<and>
   ReachFrequencyCalculator 1000000 10000 90 0.5 [(''A'', 1)] [(''A'', 0)] [(''A'', 0.7)] =
     Inr \<lparr>total_universe = 1000000, total_impressions = 10000, max_reach_percent = 90,
      global_overlap_factor = 0.5, distributed_impressions = [(''A'', 1)],
      channel_penetration = [(''A'', 0)], efficiency_factors = [(''A'', 0.7)],
      channel_reach = [], channel_contributions = [], raw_total_reach = 0,
      overlapped_reach = 0, final_reach = 0, average_frequency = 0, effective_reach = []\<rparr> \<and>
   calculate_channel_reach \<lparr>total_universe = 1000000, total_impressions = 10000, max_reach_percent = 90,
      global_overlap_factor = 0.5, distributed_impressions = [(''A'', 1)],
      channel_penetration = [(''A'', 0)], efficiency_factors = [(''A'', 0.7)],
      channel_reach = [], channel_contributions = [], raw_total_reach = 0,
      overlapped_reach = 0, final_reach = 0, average_frequency = 0, effective_reach = []\<rparr> = Inl ZeroDivisionError \<and>
   calculate_plan 1000000 10000 90 0.5 [(''A'', 1)] [(''A'', 0)] [(''A'', 0.7)] = Inl ZeroDivisionError"
  by (simp add: valid_dicts_def dict_wf_def ReachFrequencyCalculator_def calculate_plan_def
      run_all_calculations_def calculate_channel_reach_def truediv_def)

text \<open>
  Claim C5 fails on the source. When every channel has 0 impressions the raw total reach, the
  final reach and the average frequency are 0, and the effective reach stage returns a
  dictionary with 0 at the keys \<open>"2+"\<close> to \<open>"6+"\<close>; but it does not store it, and the results
  hold the empty \<open>effective_reach\<close> of the constructor, in which no threshold key is present.
\<close>

theorem zero_impressions_effective_reach_empty:
  "valid_dicts [(''A'', 0), (''B'', 0)] [(''A'', 0.8), (''B'', 0.5)] [(''A'', 0.7)] \<and>
   ReachFrequencyCalculator 1000000 10000 90 0.5 [(''A'', 0), (''B'', 0)] [(''A'', 0.8), (''B'', 0.5)] [(''A'', 0.7)] =
     Inr \<lparr>total_universe = 1000000, total_impressions = 10000, max_reach_percent = 90,
      global_overlap_factor = 0.5, distributed_impressions = [(''A'', 0), (''B'', 0)],
      channel_penetration = [(''A'', 0.8), (''B'', 0.5)], efficiency_factors = [(''A'', 0.7)],
      channel_reach = [], channel_contributions = [], raw_total_reach = 0,
      overlapped_reach = 0, final_reach = 0, average_frequency = 0, effective_reach = []\<rparr> \<and>
   run_all_calculations \<lparr>total_universe = 1000000, total_impressions = 10000, max_reach_percent = 90,
      global_overlap_factor = 0.5, distributed_impressions = [(''A'', 0), (''B'', 0)],
      channel_penetration = [(''A'', 0.8), (''B'', 0.5)], efficiency_factors = [(''A'', 0.7)],
      channel_reach = [], channel_contributions = [], raw_total_reach = 0,
      overlapped_reach = 0, final_reach = 0, average_frequency = 0, effective_reach = []\<rparr> =
     Inr (\<lparr>res_channel_contributions = [(''A'', 0), (''B'', 0)], res_raw_reach_percent = 0,
           res_overlapped_reach_percent = 0, res_final_reach = 0, res_final_reach_percent = 0,
           res_average_frequency = 0, res_effective_reach = []\<rparr>,
          \<lparr>total_universe = 1000000, total_impressions = 10000, max_reach_percent = 90,
      global_overlap_factor = 0.5, distributed_impressions = [(''A'', 0), (''B'', 0)],
      channel_penetration = [(''A'', 0.8), (''B'', 0.5)], efficiency_factors = [(''A'', 0.7)],
      channel_reach = [(''A'', 0), (''B'', 0)],
      channel_contributions = [(''A'', 0), (''B'', 0)], raw_total_reach = 0,
      overlapped_reach = 0, final_reach = 0, average_frequency = 0, effective_reach = []\<rparr>) \<and>
   calculate_effective_reach \<lparr>total_universe = 1000000, total_impressions = 10000, max_reach_percent = 90,
      global_overlap_factor = 0.5, distributed_impressions = [(''A'', 0), (''B'', 0)],
      channel_penetration = [(''A'', 0.8), (''B'', 0.5)], efficiency_factors = [(''A'', 0.7)],
      channel_reach = [(''A'', 0), (''B'', 0)],
      channel_contributions = [(''A'', 0), (''B'', 0)], raw_total_reach = 0,
      overlapped_reach = 0, final_reach = 0, average_frequency = 0, effective_reach = []\<rparr> 6 =
     Inr ([(''2+'', 0), (''3+'', 0), (''4+'', 0), (''5+'', 0), (''6+'', 0)],
          \<lparr>total_universe = 1000000, total_impressions = 10000, max_reach_percent = 90,
      global_overlap_factor = 0.5, distributed_impressions = [(''A'', 0), (''B'', 0)],
      channel_penetration = [(''A'', 0.8), (''B'', 0.5)], efficiency_factors = [(''A'', 0.7)],
      channel_reach = [(''A'', 0), (''B'', 0)],
      channel_contributions = [(''A'', 0), (''B'', 0)], raw_total_reach = 0,
      overlapped_reach = 0, final_reach = 0, average_frequency = 0, effective_reach = []\<rparr>) \<and>
   map_of (res_effective_reach \<lparr>res_channel_contributions = [(''A'', 0), (''B'', 0)],
     res_raw_reach_percent = 0, res_overlapped_reach_percent = 0, res_final_reach = 0,
     res_final_reach_percent = 0, res_average_frequency = 0, res_effective_reach = []\<rparr>)
     ''2+'' = None"
  by (simp add: valid_dicts_def dict_wf_def ReachFrequencyCalculator_def
      run_all_calculations_def calculate_channel_reach_def contributions_loop_def
      calculate_total_reach_def calculate_frequency_def calculate_effective_reach_def
      truediv_def threshold_keys_2_6)


text \<open>
  Claim C1 fails on the source. \<open>calculate_total_reach\<close> keeps the discounted reach in the
  local \<open>overlap_reach\<close> and never assigns \<open>self.overlapped_reach\<close>, so the results hold
  \<open>overlapped_reach_percent = 0\<close>. For one channel of penetration 1 with 1,000,000 impressions
  in a universe of 1,000,000 the raw total reach is \<open>1000000 * (1 - exp (-1))\<close> and the claimed
  percentage is \<open>50 * (1 - exp (-1))\<close>, which is not 0.
\<close>

theorem overlapped_reach_percent_is_zero:
  "valid_dicts [(''A'', 1000000)] [(''A'', 1)] [(''A'', 0.7)] \<and>
   ReachFrequencyCalculator 1000000 10000 90 0.5 [(''A'', 1000000)] [(''A'', 1)] [(''A'', 0.7)] =
     Inr \<lparr>total_universe = 1000000, total_impressions = 10000, max_reach_percent = 90,
      global_overlap_factor = 0.5, distributed_impressions = [(''A'', 1000000)],
      channel_penetration = [(''A'', 1)], efficiency_factors = [(''A'', 0.7)],
      channel_reach = [], channel_contributions = [], raw_total_reach = 0,
      overlapped_reach = 0, final_reach = 0, average_frequency = 0, effective_reach = []\<rparr> \<and>
   run_all_calculations
     \<lparr>total_universe = 1000000, total_impressions = 10000, max_reach_percent = 90,
      global_overlap_factor = 0.5, distributed_impressions = [(''A'', 1000000)],
      channel_penetration = [(''A'', 1)], efficiency_factors = [(''A'', 0.7)],
      channel_reach = [], channel_contributions = [], raw_total_reach = 0,
      overlapped_reach = 0, final_reach = 0, average_frequency = 0, effective_reach = []\<rparr> =
     Inr (projr (run_all_calculations
     \<lparr>total_universe = 1000000, total_impressions = 10000, max_reach_percent = 90,
      global_overlap_factor = 0.5, distributed_impressions = [(''A'', 1000000)],
      channel_penetration = [(''A'', 1)], efficiency_factors = [(''A'', 0.7)],
      channel_reach = [], channel_contributions = [], raw_total_reach = 0,
      overlapped_reach = 0, final_reach = 0, average_frequency = 0, effective_reach = []\<rparr>)) \<and>
   raw_total_reach (snd (projr (run_all_calculations
     \<lparr>total_universe = 1000000, total_impressions = 10000, max_reach_percent = 90,
      global_overlap_factor = 0.5, distributed_impressions = [(''A'', 1000000)],
      channel_penetration = [(''A'', 1)], efficiency_factors = [(''A'', 0.7)],
      channel_reach = [], channel_contributions = [], raw_total_reach = 0,
      overlapped_reach = 0, final_reach = 0, average_frequency = 0, effective_reach = []\<rparr>))) = 1000000 * (1 - exp (- 1)) \<and>
   res_overlapped_reach_percent (fst (projr (run_all_calculations
     \<lparr>total_universe = 1000000, total_impressions = 10000, max_reach_percent = 90,
      global_overlap_factor = 0.5, distributed_impressions = [(''A'', 1000000)],
      channel_penetration = [(''A'', 1)], efficiency_factors = [(''A'', 0.7)],
      channel_reach = [], channel_contributions = [], raw_total_reach = 0,
      overlapped_reach = 0, final_reach = 0, average_frequency = 0, effective_reach = []\<rparr>))) = 0 \<and>
   raw_total_reach (snd (projr (run_all_calculations
     \<lparr>total_universe = 1000000, total_impressions = 10000, max_reach_percent = 90,
      global_overlap_factor = 0.5, distributed_impressions = [(''A'', 1000000)],
      channel_penetration = [(''A'', 1)], efficiency_factors = [(''A'', 0.7)],
      channel_reach = [], channel_contributions = [], raw_total_reach = 0,
      overlapped_reach = 0, final_reach = 0, average_frequency = 0, effective_reach = []\<rparr>))) *
     (1 - global_overlap_factor (snd (projr (run_all_calculations
     \<lparr>total_universe = 1000000, total_impressions = 10000, max_reach_percent = 90,
      global_overlap_factor = 0.5, distributed_impressions = [(''A'', 1000000)],
      channel_penetration = [(''A'', 1)], efficiency_factors = [(''A'', 0.7)],
      channel_reach = [], channel_contributions = [], raw_total_reach = 0,
      overlapped_reach = 0, final_reach = 0, average_frequency = 0, effective_reach = []\<rparr>)))) /
     real_of_int (total_universe (snd (projr (run_all_calculations
     \<lparr>total_universe = 1000000, total_impressions = 10000, max_reach_percent = 90,
      global_overlap_factor = 0.5, distributed_impressions = [(''A'', 1000000)],
      channel_penetration = [(''A'', 1)], efficiency_factors = [(''A'', 0.7)],
      channel_reach = [], channel_contributions = [], raw_total_reach = 0,
      overlapped_reach = 0, final_reach = 0, average_frequency = 0, effective_reach = []\<rparr>)))) * 100 = 50 * (1 - exp (- 1)) \<and>
   res_overlapped_reach_percent (fst (projr (run_all_calculations
     \<lparr>total_universe = 1000000, total_impressions = 10000, max_reach_percent = 90,
      global_overlap_factor = 0.5, distributed_impressions = [(''A'', 1000000)],
      channel_penetration = [(''A'', 1)], efficiency_factors = [(''A'', 0.7)],
      channel_reach = [], channel_contributions = [], raw_total_reach = 0,
      overlapped_reach = 0, final_reach = 0, average_frequency = 0, effective_reach = []\<rparr>))) \<noteq> 50 * (1 - exp (- 1))"
proof -
  let ?self = "\<lparr>total_universe = 1000000, total_impressions = 10000, max_reach_percent = 90,
      global_overlap_factor = 0.5, distributed_impressions = [(''A'', 1000000)],
      channel_penetration = [(''A'', 1)], efficiency_factors = [(''A'', 0.7)],
      channel_reach = [], channel_contributions = [], raw_total_reach = 0,
      overlapped_reach = 0, final_reach = 0, average_frequency = 0, effective_reach = []\<rparr>"
  let ?self1 = "\<lparr>total_universe = 1000000, total_impressions = 10000, max_reach_percent = 90,
      global_overlap_factor = 0.5, distributed_impressions = [(''A'', 1000000)],
      channel_penetration = [(''A'', 1)], efficiency_factors = [(''A'', 0.7)],
      channel_reach = [(''A'', 1000000 * (1 - exp (- 1)))],
      channel_contributions = [(''A'', 100)], raw_total_reach = 0,
      overlapped_reach = 0, final_reach = 0, average_frequency = 0, effective_reach = []\<rparr>"
  let ?s3 = "calculate_frequency (calculate_total_reach ?self1)"
  have h1: "valid_dicts [(''A'', 1000000)] [(''A'', 1)] [(''A'', 0.7)]"
    by (simp add: valid_dicts_def dict_wf_def)
  have h2: "ReachFrequencyCalculator 1000000 10000 90 0.5 [(''A'', 1000000)] [(''A'', 1)] [(''A'', 0.7)] = Inr ?self"
    by (simp add: ReachFrequencyCalculator_def)
  have s: "calculate_channel_reach ?self = Inr ?self1" by (rule one_channel_stage)
  have U: "total_universe ?self1 \<noteq> 0" by simp
  have U3: "total_universe ?s3 \<noteq> 0"
    by (simp add: calculate_frequency_fields calculate_total_reach_fields)
  from calculate_effective_reach_total [OF U3, of 6] obtain d e where
    run: "calculate_effective_reach ?s3 6 = Inr (d, ?s3\<lparr>effective_reach := e\<rparr>)"
    by blast
  note r = run_all_calculations_result [OF s U run]
  have h3: "run_all_calculations ?self = Inr (projr (run_all_calculations ?self))"
    unfolding r by simp
  have h4: "raw_total_reach (snd (projr (run_all_calculations ?self))) = 1000000 * (1 - exp (- 1))"
    unfolding r by (simp add: calculate_frequency_fields calculate_total_reach_raw)
  have h5: "res_overlapped_reach_percent (fst (projr (run_all_calculations ?self))) = 0"
    unfolding r by simp
  have g: "global_overlap_factor (snd (projr (run_all_calculations ?self))) = 0.5"
    unfolding r by (simp add: calculate_frequency_fields calculate_total_reach_fields)
  have u: "total_universe (snd (projr (run_all_calculations ?self))) = 1000000"
    unfolding r by (simp add: calculate_frequency_fields calculate_total_reach_fields)
  have h6: "raw_total_reach (snd (projr (run_all_calculations ?self))) *
     (1 - global_overlap_factor (snd (projr (run_all_calculations ?self)))) /
     real_of_int (total_universe (snd (projr (run_all_calculations ?self)))) * 100 =
     50 * (1 - exp (- 1))"
    unfolding h4 g u by simp
  have h7: "res_overlapped_reach_percent (fst (projr (run_all_calculations ?self))) \<noteq>
     50 * (1 - exp (- 1))"
    unfolding h5 by simp
  show ?thesis by (intro conjI h1 h2 h3 h4 h5 h6 h7)
qed

end
